theory Spec2Isabelle
  imports Main "HOL-Library.FSet" "HOL-Library.Log_Nat"
begin

section \<open>Values of the expression language\<close>

text \<open>
  The module \<^verbatim>\<open>gnomad/assessment/summary_stats.py\<close> builds expressions of the Hail
  query language and hands them to Hail's tables and matrix tables. An expression
  evaluated on a row gives a value, the missing value (\<open>NA\<close>), or a run-time error of
  the engine (an array index out of bounds). Python itself raises \<open>KeyError\<close> and
  \<open>TypeError\<close> while the expression is being built.

  A nullable value is an \<open>option\<close> (\<open>None\<close> is the missing value); the evaluation of
  an expression is a sum with the error on the left. A 32-bit or 64-bit integer is
  an \<open>int\<close>: the module adds and multiplies no integer of the data, it only compares
  them and counts rows. A \<open>float64\<close> of the data (an allele frequency, a mean
  expression) is a \<open>rat\<close>: the module only compares it with decimal constants. The
  one place where the module computes with floats is the bound of the allele-number
  criterion, a product of Python floats: there a float is a \<open>float64\<close> below, and
  every product is rounded as IEEE 754 does.
\<close>

datatype error = KeyError | TypeError | HailException

type_synonym 'a expr = "error + 'a option"

definition lit :: "'a \<Rightarrow> 'a expr" where
  "lit v = Inr (Some v)"

definition missing :: "'a expr" where
  "missing = Inr None"

text \<open>
  A strict binary operator evaluates both operands (the left one first); its result
  is missing as soon as one operand is missing.
\<close>

definition binop :: "('a \<Rightarrow> 'b \<Rightarrow> 'c) \<Rightarrow> 'a expr \<Rightarrow> 'b expr \<Rightarrow> 'c expr" where
  "binop f x y =
     (case x of
        Inl e \<Rightarrow> Inl e
      | Inr a \<Rightarrow>
          (case y of
             Inl e \<Rightarrow> Inl e
           | Inr b \<Rightarrow>
               (case (a, b) of
                  (Some u, Some v) \<Rightarrow> Inr (Some (f u v))
                | _ \<Rightarrow> Inr None)))"

definition hl_eq :: "'a expr \<Rightarrow> 'a expr \<Rightarrow> bool expr" where
  "hl_eq = binop (\<lambda>u v. u = v)"

definition hl_le :: "('a::linorder) expr \<Rightarrow> 'a expr \<Rightarrow> bool expr" where
  "hl_le = binop (\<lambda>u v. u \<le> v)"

definition hl_lt :: "('a::linorder) expr \<Rightarrow> 'a expr \<Rightarrow> bool expr" where
  "hl_lt = binop (\<lambda>u v. u < v)"

definition hl_gt :: "('a::linorder) expr \<Rightarrow> 'a expr \<Rightarrow> bool expr" where
  "hl_gt = binop (\<lambda>u v. u > v)"

definition hl_ge :: "('a::linorder) expr \<Rightarrow> 'a expr \<Rightarrow> bool expr" where
  "hl_ge = binop (\<lambda>u v. u \<ge> v)"

text \<open>
  \<open>a[i]\<close> on an array expression: missing when the array is missing, an error when
  the index is out of bounds; a negative index counts from the end. The element
  itself may be missing.
\<close>

definition index_expr :: "'a option list expr \<Rightarrow> int \<Rightarrow> 'a expr" where
  "index_expr a i =
     (case a of
        Inl e \<Rightarrow> Inl e
      | Inr None \<Rightarrow> Inr None
      | Inr (Some xs) \<Rightarrow>
          (if 0 \<le> i \<and> i < int (length xs) then Inr (xs ! nat i)
           else if i < 0 \<and> - int (length xs) \<le> i then Inr (xs ! nat (int (length xs) + i))
           else Inl HailException))"

text \<open>\<open>s.f\<close> on a struct expression: missing when the struct is missing.\<close>

definition get_field :: "('s \<Rightarrow> 'a option) \<Rightarrow> 's expr \<Rightarrow> 'a expr" where
  "get_field f s =
     (case s of
        Inl e \<Rightarrow> Inl e
      | Inr None \<Rightarrow> Inr None
      | Inr (Some r) \<Rightarrow> Inr (f r))"

definition is_defined :: "'a expr \<Rightarrow> bool expr" where
  "is_defined x = (case x of Inl e \<Rightarrow> Inl e | Inr v \<Rightarrow> Inr (Some (v \<noteq> None)))"

definition is_missing :: "'a expr \<Rightarrow> bool expr" where
  "is_missing x = (case x of Inl e \<Rightarrow> Inl e | Inr v \<Rightarrow> Inr (Some (v = None)))"

text \<open>
  \<open>hl.cond(c, t, e, missing_false)\<close>: only the branch taken is evaluated. A missing
  condition gives a missing result, unless \<open>missing_false\<close> is set: then it counts
  as false.
\<close>

definition cond :: "bool \<Rightarrow> bool expr \<Rightarrow> 'a expr \<Rightarrow> 'a expr \<Rightarrow> 'a expr" where
  "cond missing_false c t e =
     (case c of
        Inl err \<Rightarrow> Inl err
      | Inr (Some True) \<Rightarrow> t
      | Inr (Some False) \<Rightarrow> e
      | Inr None \<Rightarrow> (if missing_false then e else Inr None))"

text \<open>
  \<open>hl.case(missing_false)\<close> collects its \<open>when\<close> branches in order; \<open>default\<close>
  closes the chain by nesting one \<open>cond\<close> per branch around the default value, the
  first branch outermost. \<open>or_missing()\<close> is \<open>default\<close> of the missing value.
\<close>

definition case_default ::
  "bool \<Rightarrow> (bool expr \<times> 'a expr) list \<Rightarrow> 'a expr \<Rightarrow> 'a expr" where
  "case_default missing_false whens dflt =
     foldr (\<lambda>(c, t) e. cond missing_false c t e) whens dflt"

definition case_or_missing :: "bool \<Rightarrow> (bool expr \<times> 'a expr) list \<Rightarrow> 'a expr" where
  "case_or_missing missing_false whens = case_default missing_false whens missing"

text \<open>
  \<open>a & b\<close> on Boolean expressions is Kleene's conjunction: false as soon as one
  side is false, missing otherwise when one side is missing. The right operand is
  not evaluated when the left one is false.
\<close>

definition hl_and :: "bool expr \<Rightarrow> bool expr \<Rightarrow> bool expr" where
  "hl_and x y =
     (case x of
        Inl e \<Rightarrow> Inl e
      | Inr (Some False) \<Rightarrow> Inr (Some False)
      | Inr (Some True) \<Rightarrow> y
      | Inr None \<Rightarrow>
          (case y of
             Inl e \<Rightarrow> Inl e
           | Inr (Some False) \<Rightarrow> Inr (Some False)
           | Inr _ \<Rightarrow> Inr None))"

section \<open>Double-precision floats\<close>

text \<open>
  A Python float is an IEEE 754 binary64 number: a finite value (a rational
  \<open>m * 2 ^ e\<close> with \<open>\<bar>m\<bar> \<le> 2 ^ 53\<close> and \<open>- 1074 \<le> e \<le> 971\<close>), an infinity or
  not-a-number. The sign of a zero is not kept: no operation below tells the two
  zeros apart.
\<close>

datatype float64 = Finite rat | PInf | NInf | NaN

definition pow2 :: "int \<Rightarrow> rat" where
  "pow2 k = (if 0 \<le> k then 2 ^ nat k else 1 / 2 ^ nat (- k))"

text \<open>The integer part of the binary logarithm of a positive rational.\<close>

definition floor_log2 :: "rat \<Rightarrow> int" where
  "floor_log2 x = (if 1 \<le> x then bitlen \<lfloor>x\<rfloor> - 1 else - bitlen (\<lceil>1 / x\<rceil> - 1))"

text \<open>The nearest integer, the even one of two that are equally near.\<close>

definition round_half_even :: "rat \<Rightarrow> int" where
  "round_half_even q =
     (if q - of_int \<lfloor>q\<rfloor> < 1 / 2 then \<lfloor>q\<rfloor>
      else if 1 / 2 < q - of_int \<lfloor>q\<rfloor> then \<lfloor>q\<rfloor> + 1
      else if even \<lfloor>q\<rfloor> then \<lfloor>q\<rfloor> else \<lfloor>q\<rfloor> + 1)"

text \<open>
  Rounding to the nearest double, ties to even: the value is cut to 53 significant
  bits, or to a multiple of \<open>2 ^ - 1074\<close> when it is that small; a value that rounds
  to \<open>2 ^ 1024\<close> or more becomes an infinity. On a double it is the identity.
\<close>

definition round_f64 :: "rat \<Rightarrow> float64" where
  "round_f64 x =
     (if x = 0 then Finite 0
      else
        (let e = max (floor_log2 \<bar>x\<bar> - 52) (- 1074);
             m = round_half_even (\<bar>x\<bar> / pow2 e)
         in if 971 < e \<or> (e = 971 \<and> 2 ^ 53 \<le> m) then (if 0 < x then PInf else NInf)
            else Finite (if 0 < x then of_int m * pow2 e else - (of_int m * pow2 e))))"

definition f64_sgn :: "float64 \<Rightarrow> int" where
  "f64_sgn x =
     (case x of
        Finite a \<Rightarrow> (if a = 0 then 0 else if 0 < a then 1 else - 1)
      | PInf \<Rightarrow> 1
      | NInf \<Rightarrow> - 1
      | NaN \<Rightarrow> 0)"

text \<open>
  The product of two floats: the exact product, rounded; an infinity times zero and
  every product with not-a-number are not-a-number.
\<close>

definition f64_mul :: "float64 \<Rightarrow> float64 \<Rightarrow> float64" where
  "f64_mul x y =
     (case (x, y) of
        (NaN, _) \<Rightarrow> NaN
      | (_, NaN) \<Rightarrow> NaN
      | (Finite a, Finite b) \<Rightarrow> round_f64 (a * b)
      | _ \<Rightarrow>
          (if f64_sgn x * f64_sgn y = 0 then NaN
           else if 0 < f64_sgn x * f64_sgn y then PInf else NInf))"

text \<open>
  The float of a Python integer, as the product of a float and an integer takes it:
  the nearest double. (Python raises \<open>OverflowError\<close> on an integer beyond the range
  of a double, where this gives an infinity; the integers converted here are counts
  of samples.)
\<close>

definition f64_of_int :: "int \<Rightarrow> float64" where
  "f64_of_int n = round_f64 (of_int n)"

text \<open>\<open>x >= y\<close> on floats: false as soon as one side is not-a-number.\<close>

definition f64_ge :: "float64 \<Rightarrow> float64 \<Rightarrow> bool" where
  "f64_ge x y =
     (case (x, y) of
        (NaN, _) \<Rightarrow> False
      | (_, NaN) \<Rightarrow> False
      | (Finite a, Finite b) \<Rightarrow> b \<le> a
      | (PInf, _) \<Rightarrow> True
      | (_, NInf) \<Rightarrow> True
      | _ \<Rightarrow> False)"

section \<open>The frequency binner\<close>

text \<open>
  A frequency struct as \<open>annotate_freq\<close> writes it: allele count, allele number and
  allele frequency, each nullable.
\<close>

record freq_struct =
  AC :: "int option"
  AN :: "int option"
  AF :: "rat option"

definition freq_bin_expr :: "freq_struct option list expr \<Rightarrow> int \<Rightarrow> string expr" where
  "freq_bin_expr freq_expr index =
     case_default True
       [(hl_eq (get_field AC (index_expr freq_expr index)) (lit 0), lit ''Not found''),
        (hl_eq (get_field AC (index_expr freq_expr index)) (lit 1), lit ''Singleton''),
        (hl_eq (get_field AC (index_expr freq_expr index)) (lit 2), lit ''Doubleton''),
        (hl_le (get_field AC (index_expr freq_expr index)) (lit 5), lit ''AC 3 - 5''),
        (hl_lt (get_field AF (index_expr freq_expr index)) (lit (1 / 10000)), lit ''AC 6 - 0.01%''),
        (hl_lt (get_field AF (index_expr freq_expr index)) (lit (1 / 1000)), lit ''0.01% - 0.1%''),
        (hl_lt (get_field AF (index_expr freq_expr index)) (lit (1 / 100)), lit ''0.1% - 1%''),
        (hl_lt (get_field AF (index_expr freq_expr index)) (lit (1 / 10)), lit ''1% - 10%''),
        (hl_gt (get_field AF (index_expr freq_expr index)) (lit (95 / 100)), lit ''>95%'')]
       (lit ''10% - 95%'')"

text \<open>The ten labels, in the order of the rules.\<close>

definition bin_labels :: "string list" where
  "bin_labels =
     [''Not found'', ''Singleton'', ''Doubleton'', ''AC 3 - 5'', ''AC 6 - 0.01%'',
      ''0.01% - 0.1%'', ''0.1% - 1%'', ''1% - 10%'', ''>95%'', ''10% - 95%'']"

section \<open>Tables, aggregators and grouping\<close>

text \<open>
  A table is the list of its rows. \<open>ht.filter(p)\<close> keeps the rows on which \<open>p\<close> is
  true: a row where \<open>p\<close> is false or missing is dropped, an error stops the query.
\<close>

fun table_filter :: "('r \<Rightarrow> bool expr) \<Rightarrow> 'r list \<Rightarrow> error + 'r list" where
  "table_filter p [] = Inr []"
| "table_filter p (r # rs) =
     (case p r of
        Inl e \<Rightarrow> Inl e
      | Inr b \<Rightarrow>
          (case table_filter p rs of
             Inl e \<Rightarrow> Inl e
           | Inr rs' \<Rightarrow> Inr (if b = Some True then r # rs' else rs')))"

text \<open>\<open>ht.annotate(...)\<close> evaluates an expression on every row and stores the value.\<close>

fun table_annotate ::
  "('r \<Rightarrow> 'a expr) \<Rightarrow> ('r \<Rightarrow> 'a option \<Rightarrow> 's) \<Rightarrow> 'r list \<Rightarrow> error + 's list" where
  "table_annotate f upd [] = Inr []"
| "table_annotate f upd (r # rs) =
     (case f r of
        Inl e \<Rightarrow> Inl e
      | Inr v \<Rightarrow>
          (case table_annotate f upd rs of
             Inl e \<Rightarrow> Inl e
           | Inr rs' \<Rightarrow> Inr (upd r v # rs')))"

text \<open>
  An aggregator maps the rows of its group to a 64-bit count (here an \<open>int\<close>: a
  count of rows stays far below \<open>2 ^ 63\<close>). \<open>hl.agg.count()\<close> counts the rows,
  \<open>hl.agg.count_where(p)\<close> those on which \<open>p\<close> is true.
\<close>

type_synonym 'r agg = "'r list \<Rightarrow> error + int"

definition agg_count :: "'r agg" where
  "agg_count rs = Inr (int (length rs))"

fun agg_count_where :: "('r \<Rightarrow> bool expr) \<Rightarrow> 'r agg" where
  "agg_count_where p [] = Inr 0"
| "agg_count_where p (r # rs) =
     (case p r of
        Inl e \<Rightarrow> Inl e
      | Inr b \<Rightarrow>
          (case agg_count_where p rs of
             Inl e \<Rightarrow> Inl e
           | Inr n \<Rightarrow> Inr (if b = Some True then n + 1 else n)))"

text \<open>
  \<open>ht.aggregate(hl.struct(**d))\<close> evaluates every aggregator of the dictionary \<open>d\<close>
  over the rows and returns the struct of the results, field by field.
\<close>

fun aggregate :: "(string \<times> 'r agg) list \<Rightarrow> 'r list \<Rightarrow> error + (string \<times> int) list" where
  "aggregate [] rs = Inr []"
| "aggregate ((name, a) # d) rs =
     (case a rs of
        Inl e \<Rightarrow> Inl e
      | Inr n \<Rightarrow>
          (case aggregate d rs of
             Inl e \<Rightarrow> Inl e
           | Inr ns \<Rightarrow> Inr ((name, n) # ns)))"

text \<open>
  \<open>ht.group_by(key).aggregate(**d)\<close>: one output row per key value that occurs (the
  missing value is a key value like any other), holding the key and the
  aggregators' results over the rows of that key. The output rows stand here in
  the order in which the keys first occur; no property below depends on the order.
\<close>

fun collect :: "(error + 'a) list \<Rightarrow> error + 'a list" where
  "collect [] = Inr []"
| "collect (x # xs) =
     (case x of
        Inl e \<Rightarrow> Inl e
      | Inr v \<Rightarrow> (case collect xs of Inl e \<Rightarrow> Inl e | Inr vs \<Rightarrow> Inr (v # vs)))"

definition group_by_aggregate ::
  "('r \<Rightarrow> 'k) \<Rightarrow> (string \<times> 'r agg) list \<Rightarrow> 'r list \<Rightarrow> error + ('k \<times> (string \<times> int) list) list" where
  "group_by_aggregate key d rs =
     collect
       (map (\<lambda>k. case aggregate d (filter (\<lambda>r. key r = k) rs) of
                    Inl e \<Rightarrow> Inl e
                  | Inr ns \<Rightarrow> Inr (k, ns))
            (remdups (map key rs)))"

section \<open>The category counter\<close>

text \<open>
  \<open>hl.is_indel\<close> and \<open>hl.is_snp\<close> are Hail's classifiers of an allele pair; they are
  parameters here. An expression over the rows of a table is a function of the row.
\<close>

definition get_summary_counts_dict ::
  "(string \<Rightarrow> string \<Rightarrow> bool) \<Rightarrow> (string \<Rightarrow> string \<Rightarrow> bool) \<Rightarrow>
   ('r \<Rightarrow> string option list expr) \<Rightarrow> ('r \<Rightarrow> string expr) \<Rightarrow> ('r \<Rightarrow> bool expr) \<Rightarrow> string \<Rightarrow>
   (string \<times> 'r agg) list" where
  "get_summary_counts_dict is_indel is_snp allele_expr lof_expr no_lof_flags_expr prefix_str =
     [(prefix_str @ ''num_variants'', agg_count),
      (prefix_str @ ''indels'',
         agg_count_where
           (\<lambda>r. binop is_indel (index_expr (allele_expr r) 0) (index_expr (allele_expr r) 1))),
      (prefix_str @ ''snps'',
         agg_count_where
           (\<lambda>r. binop is_snp (index_expr (allele_expr r) 0) (index_expr (allele_expr r) 1))),
      (prefix_str @ ''LOF'', agg_count_where (\<lambda>r. is_defined (lof_expr r))),
      (prefix_str @ ''pass_loftee'', agg_count_where (\<lambda>r. hl_eq (lof_expr r) (lit ''HC''))),
      (prefix_str @ ''pass_loftee_no_flag'',
         agg_count_where (\<lambda>r. hl_and (hl_eq (lof_expr r) (lit ''HC'')) (no_lof_flags_expr r))),
      (prefix_str @ ''loftee_os'', agg_count_where (\<lambda>r. hl_eq (lof_expr r) (lit ''OS''))),
      (prefix_str @ ''fail_loftee'', agg_count_where (\<lambda>r. hl_eq (lof_expr r) (lit ''LC'')))]"

text \<open>The eight category names, without prefix.\<close>

definition category_names :: "string list" where
  "category_names =
     [''num_variants'', ''indels'', ''snps'', ''LOF'', ''pass_loftee'',
      ''pass_loftee_no_flag'', ''loftee_os'', ''fail_loftee'']"

section \<open>The summary-counts pipeline\<close>

text \<open>
  A row of the variant table, with the fields the module reads. The VEP annotation
  is read by the collaborators only and lives in the extension of the record;
  \<open>lof\<close> and \<open>no_lof_flags\<close> are the fields \<open>get_most_severe_consequence_for_summary\<close>
  fills in, \<open>freq_bin\<close> the one the pipeline adds.
\<close>

record variant_row =
  filters :: "string fset option"
  freq :: "freq_struct option list option"
  alleles :: "string option list option"

record ht_row = variant_row +
  lof :: "string option"
  no_lof_flags :: "bool option"
  freq_bin :: "string option"

text \<open>A field of the row as an expression.\<close>

definition field_ref :: "('r \<Rightarrow> 'a option) \<Rightarrow> 'r \<Rightarrow> 'a expr" where
  "field_ref f r = Inr (f r)"

text \<open>\<open>hl.len\<close> of a set expression.\<close>

definition hl_len :: "'a fset expr \<Rightarrow> int expr" where
  "hl_len s =
     (case s of
        Inl e \<Rightarrow> Inl e
      | Inr None \<Rightarrow> Inr None
      | Inr (Some x) \<Rightarrow> Inr (Some (int (fcard x))))"

text \<open>The result: the table grouped by frequency bin, and its global annotation.\<close>

record summary_table =
  summary_counts :: "(string \<times> int) list"
  bin_rows :: "(string option \<times> (string \<times> int) list) list"

text \<open>
  \<open>filter_low_conf_regions\<close>, \<open>filter_vep_to_canonical_transcripts\<close> and
  \<open>get_most_severe_consequence_for_summary\<close> are the collaborators of
  \<open>gnomad.utils\<close>: parameters, each a function from a table to a table that may
  fail. The field names \<open>freq_field\<close> and \<open>filter_field\<close> are the accessors of the
  fields they name. The global aggregation runs when the function is called, the
  grouped one when the returned table is read: an error of either is the error of
  the result.
\<close>

definition get_summary_counts ::
  "(string \<Rightarrow> string \<Rightarrow> bool) \<Rightarrow> (string \<Rightarrow> string \<Rightarrow> bool) \<Rightarrow>
   (bool \<Rightarrow> 'z ht_row_scheme list \<Rightarrow> error + 'z ht_row_scheme list) \<Rightarrow>
   ('z ht_row_scheme list \<Rightarrow> error + 'z ht_row_scheme list) \<Rightarrow>
   ('z ht_row_scheme list \<Rightarrow> error + 'z ht_row_scheme list) \<Rightarrow>
   'z ht_row_scheme list \<Rightarrow>
   ('z ht_row_scheme \<Rightarrow> freq_struct option list option) \<Rightarrow>
   ('z ht_row_scheme \<Rightarrow> string fset option) \<Rightarrow> bool \<Rightarrow> error + summary_table" where
  "get_summary_counts is_indel is_snp filter_low_conf_regions
       filter_vep_to_canonical_transcripts get_most_severe_consequence_for_summary
       ht freq_field filter_field filter_decoy =
     (case table_filter (\<lambda>r. hl_eq (hl_len (field_ref filter_field r)) (lit 0)) ht of
        Inl e \<Rightarrow> Inl e
      | Inr ht1 \<Rightarrow>
     (case filter_low_conf_regions filter_decoy ht1 of
        Inl e \<Rightarrow> Inl e
      | Inr ht2 \<Rightarrow>
     (case filter_vep_to_canonical_transcripts ht2 of
        Inl e \<Rightarrow> Inl e
      | Inr ht3 \<Rightarrow>
     (case get_most_severe_consequence_for_summary ht3 of
        Inl e \<Rightarrow> Inl e
      | Inr ht4 \<Rightarrow>
     (case table_annotate (\<lambda>r. freq_bin_expr (field_ref freq_field r) 0)
             (\<lambda>r v. r\<lparr>freq_bin := v\<rparr>) ht4 of
        Inl e \<Rightarrow> Inl e
      | Inr ht5 \<Rightarrow>
     (case aggregate
             (get_summary_counts_dict is_indel is_snp (field_ref alleles) (field_ref lof)
                (field_ref no_lof_flags) ''total_'') ht5 of
        Inl e \<Rightarrow> Inl e
      | Inr totals \<Rightarrow>
     (case group_by_aggregate freq_bin
             (get_summary_counts_dict is_indel is_snp (field_ref alleles) (field_ref lof)
                (field_ref no_lof_flags) []) ht5 of
        Inl e \<Rightarrow> Inl e
      | Inr groups \<Rightarrow>
          Inr \<lparr>summary_counts = totals, bin_rows = groups\<rparr>)))))))"

section \<open>The allele-number criterion\<close>

text \<open>
  A locus, with the three classes Hail derives from the reference genome
  (\<open>in_autosome_or_par()\<close>, \<open>in_x_nonpar()\<close>, \<open>in_y_nonpar()\<close>). On a Hail locus at
  most one of the three holds; the model does not depend on it.
\<close>

record locus =
  contig :: string
  position :: int
  in_autosome_or_par :: bool
  in_x_nonpar :: bool
  in_y_nonpar :: bool

text \<open>A method of a struct expression that always yields a value.\<close>

definition call_method :: "('s \<Rightarrow> 'a) \<Rightarrow> 's expr \<Rightarrow> 'a expr" where
  "call_method f s = get_field (\<lambda>x. Some (f x)) s"

text \<open>A row and a column (a sample) of the matrix table, and the matrix table.\<close>

record consequence =
  gene_id :: "string option"
  gene_symbol :: "string option"
  transcript_id :: "string option"
  canonical :: "int option"
  lof :: "string option"
  lof_flags :: "string option"
  most_severe_consequence :: "string option"

record vep_struct =
  transcript_consequences :: "consequence option list option"
  worst_csq_by_gene :: "consequence option list option"

record mt_row = variant_row +
  locus :: "locus option"
  vep :: "vep_struct option"

record mt_col =
  sex_karyotype :: "string option"

record matrix_table =
  mt_rows :: "mt_row list"
  mt_cols :: "mt_col list"

text \<open>
  A Python dictionary is the list of its items, a key at most once. The keys of
  \<open>samples_by_sex\<close> are strings (\<open>Some s\<close>) or, in the dictionary that
  \<open>hl.agg.counter\<close> returns, Python's \<open>None\<close> for the samples whose sex is missing.
  \<open>d[k]\<close> raises \<open>KeyError\<close> when the key is absent.
\<close>

type_synonym ('k, 'v) dict = "('k \<times> 'v) list"

definition dict_getitem :: "('k, 'v) dict \<Rightarrow> 'k \<Rightarrow> error + 'v" where
  "dict_getitem d k = (case map_of d k of None \<Rightarrow> Inl KeyError | Some v \<Rightarrow> Inr v)"

definition dict_values :: "('k, 'v) dict \<Rightarrow> 'v list" where
  "dict_values d = map snd d"

text \<open>\<open>hl.agg.counter\<close>: the number of occurrences of every value that occurs.\<close>

definition agg_counter :: "'a list \<Rightarrow> ('a, int) dict" where
  "agg_counter xs = map (\<lambda>k. (k, int (count_list xs k))) (remdups xs)"

text \<open>
  The conversion of a 32-bit integer that a comparison with a float applies: a
  double holds every 32-bit integer exactly.
\<close>

definition to_float :: "int expr \<Rightarrow> float64 expr" where
  "to_float x =
     (case x of
        Inl e \<Rightarrow> Inl e
      | Inr None \<Rightarrow> Inr None
      | Inr (Some n) \<Rightarrow> Inr (Some (Finite (of_int n))))"

text \<open>
  Python evaluates the arguments of the three \<open>when\<close> calls while it builds the
  expression: the two dictionary lookups happen once, before any row is read. The
  result is the expression, a function of the row. \<open>sex_field\<close> stands for the path
  \<open>mt[meta_root][sex_field]\<close>, \<open>freq_field\<close> for \<open>mt[freq_field]\<close>.

  The three bounds are computed by Python, in floats, before Hail sees them:
  \<open>an_proportion_cutoff * 2 * sum(...)\<close> is two float products, the first of the
  cutoff and 2, the second with the float of the sum; the sums of the counts are
  sums of Python integers, exact. The cutoff is a finite float, given by its value
  (rounding it is the identity; a decimal such as 0.8 stands for the double that
  Python reads from it).
\<close>

definition get_an_adj_criteria ::
  "('z matrix_table_scheme) \<Rightarrow> (string option, int) dict option \<Rightarrow>
   (mt_col \<Rightarrow> string option) \<Rightarrow> string \<Rightarrow> string \<Rightarrow>
   (mt_row \<Rightarrow> freq_struct option list option) \<Rightarrow> int \<Rightarrow> rat \<Rightarrow>
   error + (mt_row \<Rightarrow> bool expr)" where
  "get_an_adj_criteria mt samples_by_sex sex_field xy_str xx_str freq_field freq_index
       an_proportion_cutoff =
     (let samples_by_sex =
            (case samples_by_sex of
               None \<Rightarrow> agg_counter (map sex_field (mt_cols mt))
             | Some d \<Rightarrow> d);
          total = sum_list (dict_values samples_by_sex)
      in case dict_getitem samples_by_sex (Some xy_str) of
           Inl e \<Rightarrow> Inl e
         | Inr xy \<Rightarrow>
             (case dict_getitem samples_by_sex (Some xx_str) of
                Inl e \<Rightarrow> Inl e
              | Inr xx \<Rightarrow>
                  Inr (\<lambda>r.
                    case_or_missing False
                      [(call_method in_autosome_or_par (field_ref locus r),
                        binop f64_ge
                          (to_float (get_field AN (index_expr (field_ref freq_field r) freq_index)))
                          (lit (f64_mul (f64_mul (round_f64 an_proportion_cutoff) (f64_of_int 2))
                                  (f64_of_int total)))),
                       (call_method in_x_nonpar (field_ref locus r),
                        binop f64_ge
                          (to_float (get_field AN (index_expr (field_ref freq_field r) freq_index)))
                          (lit (f64_mul (round_f64 an_proportion_cutoff)
                                  (f64_of_int (xy + xx * 2))))),
                       (call_method in_y_nonpar (field_ref locus r),
                        binop f64_ge
                          (to_float (get_field AN (index_expr (field_ref freq_field r) freq_index)))
                          (lit (f64_mul (round_f64 an_proportion_cutoff) (f64_of_int xy))))])))"

section \<open>The gene-level LoF matrix builder\<close>

subsection \<open>Arrays and sets of the expression language\<close>

text \<open>
  \<open>a.filter(f)\<close> keeps the elements on which \<open>f\<close> is true, \<open>hl.find(f, a)\<close> returns
  the first such element or the missing value; both are missing on a missing
  array.
\<close>

fun filter_elems :: "('a expr \<Rightarrow> bool expr) \<Rightarrow> 'a option list \<Rightarrow> error + 'a option list" where
  "filter_elems f [] = Inr []"
| "filter_elems f (x # xs) =
     (case f (Inr x) of
        Inl e \<Rightarrow> Inl e
      | Inr b \<Rightarrow>
          (case filter_elems f xs of
             Inl e \<Rightarrow> Inl e
           | Inr ys \<Rightarrow> Inr (if b = Some True then x # ys else ys)))"

definition array_filter :: "('a expr \<Rightarrow> bool expr) \<Rightarrow> 'a option list expr \<Rightarrow> 'a option list expr" where
  "array_filter f a =
     (case a of
        Inl e \<Rightarrow> Inl e
      | Inr None \<Rightarrow> Inr None
      | Inr (Some xs) \<Rightarrow>
          (case filter_elems f xs of Inl e \<Rightarrow> Inl e | Inr ys \<Rightarrow> Inr (Some ys)))"

fun find_elem :: "('a expr \<Rightarrow> bool expr) \<Rightarrow> 'a option list \<Rightarrow> 'a expr" where
  "find_elem f [] = Inr None"
| "find_elem f (x # xs) =
     (case f (Inr x) of
        Inl e \<Rightarrow> Inl e
      | Inr b \<Rightarrow> (if b = Some True then Inr x else find_elem f xs))"

definition hl_find :: "('a expr \<Rightarrow> bool expr) \<Rightarrow> 'a option list expr \<Rightarrow> 'a expr" where
  "hl_find f a =
     (case a of
        Inl e \<Rightarrow> Inl e
      | Inr None \<Rightarrow> Inr None
      | Inr (Some xs) \<Rightarrow> find_elem f xs)"

text \<open>
  \<open>hl.literal(s).contains(x)\<close> for a Python set \<open>s\<close> of strings: the set is defined
  and holds no missing element, so a missing \<open>x\<close> is not contained.
\<close>

definition literal_contains :: "'a set \<Rightarrow> 'a expr \<Rightarrow> bool expr" where
  "literal_contains s x =
     (case x of
        Inl e \<Rightarrow> Inl e
      | Inr None \<Rightarrow> Inr (Some False)
      | Inr (Some v) \<Rightarrow> Inr (Some (v \<in> s)))"

subsection \<open>The row filter\<close>

text \<open>
  Lines 264 to 270 build the row filter. \<open>get_an_adj_criteria(mt)\<close> is called with
  its defaults: the samples are counted from the columns, the strings are \<open>XY\<close> and
  \<open>XX\<close>, the frequency is field \<open>freq\<close> at index 0 and the cutoff is 0.8.
\<close>

definition filt_criteria ::
  "('z matrix_table_scheme) \<Rightarrow> (mt_row \<Rightarrow> string fset option) \<Rightarrow>
   (mt_row \<Rightarrow> freq_struct option list option) \<Rightarrow> int \<Rightarrow> bool \<Rightarrow> bool \<Rightarrow> bool \<Rightarrow>
   error + (mt_row \<Rightarrow> bool expr)" where
  "filt_criteria mt filter_field freq_field freq_index filter_an filter_to_rare
       remove_ultra_common =
     (let c0 = (\<lambda>r. hl_eq (hl_len (field_ref filter_field r)) (lit 0))
      in case (if filter_an
               then (case get_an_adj_criteria mt None sex_karyotype ''XY'' ''XX'' freq 0 (8 / 10) of
                       Inl e \<Rightarrow> Inl e
                     | Inr an \<Rightarrow> Inr (\<lambda>r. hl_and (c0 r) (an r)))
               else Inr c0) of
           Inl e \<Rightarrow> Inl e
         | Inr c1 \<Rightarrow>
             (let c2 = (if remove_ultra_common
                        then (\<lambda>r. hl_and (c1 r)
                                (hl_lt (get_field AF (index_expr (field_ref freq_field r) freq_index))
                                   (lit (95 / 100))))
                        else c1);
                  c3 = (if filter_to_rare
                        then (\<lambda>r. hl_and (c2 r)
                                (hl_lt (get_field AF (index_expr (field_ref freq_field r) freq_index))
                                   (lit (5 / 100))))
                        else c2)
              in Inr c3))"

text \<open>The rows that \<open>mt.filter_rows(filt_criteria)\<close> of line 271 retains.\<close>

definition retained_rows ::
  "('z matrix_table_scheme) \<Rightarrow> (mt_row \<Rightarrow> string fset option) \<Rightarrow>
   (mt_row \<Rightarrow> freq_struct option list option) \<Rightarrow> int \<Rightarrow> bool \<Rightarrow> bool \<Rightarrow> bool \<Rightarrow>
   error + mt_row list" where
  "retained_rows mt filter_field freq_field freq_index filter_an filter_to_rare
       remove_ultra_common =
     (case filt_criteria mt filter_field freq_field freq_index filter_an filter_to_rare
             remove_ultra_common of
        Inl e \<Rightarrow> Inl e
      | Inr c \<Rightarrow> table_filter c (mt_rows mt))"

subsection \<open>The consequence filter\<close>

text \<open>
  Lines 279 to 291. \<open>criteria\<close> is a Python function (a \<open>lambda\<close>) from a consequence
  expression to a Boolean expression. When \<open>additional_csq_set\<close> is not empty, line
  289 applies \<open>&=\<close> to this function and a second \<open>lambda\<close>: Python functions
  define neither \<open>__iand__\<close> nor \<open>__and__\<close> nor \<open>__rand__\<close>, so the statement raises
  \<open>TypeError\<close>. \<open>add_most_severe_consequence_to_consequence\<close> is the collaborator
  of \<open>gnomad.utils.vep\<close>, a parameter.
\<close>

definition csq_criteria ::
  "(consequence expr \<Rightarrow> consequence expr) \<Rightarrow> bool \<Rightarrow> string set \<Rightarrow> string set \<Rightarrow>
   error + (consequence expr \<Rightarrow> bool expr)" where
  "csq_criteria add_most_severe_consequence_to_consequence pre_loftee lof_csq_set
       additional_csq_set =
     (let criteria =
            (if pre_loftee
             then (\<lambda>x. literal_contains lof_csq_set
                          (get_field most_severe_consequence
                             (add_most_severe_consequence_to_consequence x)))
             else (\<lambda>x. hl_and (hl_eq (get_field consequence.lof x) (lit ''HC''))
                          (is_missing (get_field lof_flags x))))
      in if additional_csq_set \<noteq> {} then Inl TypeError else Inr criteria)"

subsection \<open>The transcript-expression annotation\<close>

record tx_entry =
  ensg :: "string option"
  csq :: "string option"
  mean_expression :: "rat option"

record tx_row =
  tx_annotation :: "tx_entry option list option"

text \<open>
  The row key of the matrix table is the locus and the alleles; \<open>tx_ht[key]\<close> is the
  row of the expression table with that key, missing when there is none.
\<close>

type_synonym row_key = "locus option \<times> string option list option"

definition annotate_tx_expression_data ::
  "row_key \<Rightarrow> (row_key \<Rightarrow> 't option) \<Rightarrow> consequence expr \<Rightarrow>
   ('e \<Rightarrow> string option) \<Rightarrow> ('e \<Rightarrow> string option) \<Rightarrow> ('t \<Rightarrow> 'e option list option) \<Rightarrow>
   'e expr" where
  "annotate_tx_expression_data key tx_ht csq_expr gene_field csq_field tx_field =
     hl_find
       (\<lambda>c. hl_and (hl_eq (get_field gene_field c) (get_field gene_id csq_expr))
               (hl_eq (get_field csq_field c) (get_field most_severe_consequence csq_expr)))
       (get_field tx_field (Inr (tx_ht key)))"

text \<open>
  The bucket of lines 305 to 311, as a function of the Python variable
  \<open>tx_annotation\<close> (here \<open>tx_ann\<close>), the mean expression of the matched entry.
\<close>

definition expressed_expr :: "rat expr \<Rightarrow> string expr" where
  "expressed_expr tx_ann =
     case_default False
       [(hl_ge tx_ann (lit (9 / 10)), lit ''high''),
        (hl_gt tx_ann (lit (1 / 10)), lit ''medium''),
        (is_defined tx_ann, lit ''low'')]
       (lit ''missing'')"

subsection \<open>The rows handed to the grouping\<close>

text \<open>
  \<open>select_rows\<close> keeps the row key, the frequency field and the filtered
  consequences; \<open>explode_rows\<close> makes one row per consequence and drops a row whose
  array is missing or empty.
\<close>

record gene_row =
  row_locus :: "locus option"
  row_alleles :: "string option list option"
  row_freq :: "freq_struct option list option"
  csqs :: "consequence option"

definition select_explode_row ::
  "(consequence expr \<Rightarrow> bool expr) \<Rightarrow> (vep_struct \<Rightarrow> consequence option list option) \<Rightarrow>
   (mt_row \<Rightarrow> freq_struct option list option) \<Rightarrow> mt_row \<Rightarrow> error + gene_row list" where
  "select_explode_row criteria explode_field freq_field r =
     (case array_filter criteria (get_field explode_field (field_ref vep r)) of
        Inl e \<Rightarrow> Inl e
      | Inr None \<Rightarrow> Inr []
      | Inr (Some cs) \<Rightarrow>
          Inr (map (\<lambda>c. \<lparr>row_locus = locus r, row_alleles = alleles r,
                          row_freq = freq_field r, csqs = c\<rparr>) cs))"

text \<open>
  The value of an annotation is a string or a Boolean. \<open>annotation_expr\<close> is the
  dictionary of lines 296 to 314, its entries in the order of insertion;
  \<open>annotate_rows\<close> evaluates it on every row.
\<close>

datatype hvalue = Str "string option" | Bool "bool option"

definition str_entry :: "string expr \<Rightarrow> error + hvalue" where
  "str_entry x = (case x of Inl e \<Rightarrow> Inl e | Inr v \<Rightarrow> Inr (Str v))"

definition bool_entry :: "bool expr \<Rightarrow> error + hvalue" where
  "bool_entry x = (case x of Inl e \<Rightarrow> Inl e | Inr v \<Rightarrow> Inr (Bool v))"

definition annotation_expr ::
  "(string \<Rightarrow> string \<Rightarrow> bool) \<Rightarrow> (row_key \<Rightarrow> tx_row option) option \<Rightarrow> gene_row \<Rightarrow>
   (string \<times> (error + hvalue)) list" where
  "annotation_expr is_indel tx_ht r =
     [(''gene_id'', str_entry (get_field gene_id (field_ref csqs r))),
      (''gene'', str_entry (get_field gene_symbol (field_ref csqs r))),
      (''indel'',
         bool_entry (binop is_indel (index_expr (field_ref row_alleles r) 0)
                       (index_expr (field_ref row_alleles r) 1))),
      (''most_severe_consequence'',
         str_entry (get_field most_severe_consequence (field_ref csqs r)))]
     @ (case tx_ht of
          Some t \<Rightarrow>
            [(''expressed'',
                str_entry
                  (expressed_expr
                     (get_field mean_expression
                        (annotate_tx_expression_data (row_locus r, row_alleles r) t
                           (field_ref csqs r) ensg csq tx_annotation))))]
        | None \<Rightarrow>
            [(''transcript_id'', str_entry (get_field transcript_id (field_ref csqs r))),
             (''canonical'', bool_entry (is_defined (get_field canonical (field_ref csqs r))))])"

fun eval_struct :: "(string \<times> (error + 'v)) list \<Rightarrow> error + (string \<times> 'v) list" where
  "eval_struct [] = Inr []"
| "eval_struct ((name, x) # d) =
     (case x of
        Inl e \<Rightarrow> Inl e
      | Inr v \<Rightarrow> (case eval_struct d of Inl e \<Rightarrow> Inl e | Inr vs \<Rightarrow> Inr ((name, v) # vs)))"

text \<open>
  Lines 264 to 315 of \<open>default_generate_gene_lof_matrix\<close>: the rows, each with its
  annotations, that line 317 groups. Python builds the row filter and the
  consequence filter first (\<open>KeyError\<close>, \<open>TypeError\<close>); Hail evaluates the query
  afterwards. \<open>process_consequences\<close> is the collaborator of \<open>gnomad.utils.vep\<close>
  that fills \<open>worst_csq_by_gene\<close>, a parameter. The grouping and the aggregation
  of lines 317 to 331 are not part of the model.
\<close>

definition default_generate_gene_lof_matrix ::
  "(string \<Rightarrow> string \<Rightarrow> bool) \<Rightarrow> (matrix_table \<Rightarrow> matrix_table) \<Rightarrow>
   (consequence expr \<Rightarrow> consequence expr) \<Rightarrow>
   matrix_table \<Rightarrow> (row_key \<Rightarrow> tx_row option) option \<Rightarrow>
   (mt_row \<Rightarrow> string fset option) \<Rightarrow> (mt_row \<Rightarrow> freq_struct option list option) \<Rightarrow> int \<Rightarrow>
   string set \<Rightarrow> bool \<Rightarrow> bool \<Rightarrow> bool \<Rightarrow> bool \<Rightarrow> string set \<Rightarrow> bool \<Rightarrow>
   error + (gene_row \<times> (string \<times> hvalue) list) list" where
  "default_generate_gene_lof_matrix is_indel process_consequences
       add_most_severe_consequence_to_consequence mt tx_ht filter_field freq_field freq_index
       additional_csq_set all_transcripts filter_an filter_to_rare pre_loftee lof_csq_set
       remove_ultra_common =
     (case filt_criteria mt filter_field freq_field freq_index filter_an filter_to_rare
             remove_ultra_common of
        Inl e \<Rightarrow> Inl e
      | Inr fc \<Rightarrow>
     (case csq_criteria add_most_severe_consequence_to_consequence pre_loftee lof_csq_set
             additional_csq_set of
        Inl e \<Rightarrow> Inl e
      | Inr criteria \<Rightarrow>
     (case table_filter fc (mt_rows mt) of
        Inl e \<Rightarrow> Inl e
      | Inr rs \<Rightarrow>
     (let mt1 = mt\<lparr>mt_rows := rs\<rparr>;
          mt2 = (if all_transcripts then mt1 else process_consequences mt1);
          explode_field = (if all_transcripts then transcript_consequences else worst_csq_by_gene)
      in case collect (map (select_explode_row criteria explode_field freq_field) (mt_rows mt2)) of
           Inl e \<Rightarrow> Inl e
         | Inr rss \<Rightarrow>
             collect
               (map (\<lambda>r. case eval_struct (annotation_expr is_indel tx_ht r) of
                            Inl e \<Rightarrow> Inl e
                          | Inr a \<Rightarrow> Inr (r, a))
                    (concat rss))))))"

text \<open>The value on a row of a criterion whose construction may have failed.\<close>

definition eval_criteria :: "error + ('r \<Rightarrow> 'a expr) \<Rightarrow> 'r \<Rightarrow> 'a expr" where
  "eval_criteria c r = (case c of Inl e \<Rightarrow> Inl e | Inr f \<Rightarrow> f r)"

text \<open>
  The comparison \<open>AN >= bound\<close> as the claims read it: on the frequency struct at the
  index, missing when the struct or its \<open>AN\<close> is missing; the bound is a float.
\<close>

definition an_at_least :: "freq_struct option list expr \<Rightarrow> int \<Rightarrow> float64 \<Rightarrow> bool expr" where
  "an_at_least fr i bound =
     (case index_expr fr i of
        Inl e \<Rightarrow> Inl e
      | Inr None \<Rightarrow> Inr None
      | Inr (Some s) \<Rightarrow>
          (case AN s of
             None \<Rightarrow> Inr None
           | Some n \<Rightarrow> Inr (Some (f64_ge (Finite (of_int n)) bound))))"

text \<open>The dictionary of sample counts that \<open>get_an_adj_criteria\<close> reads.\<close>

definition samples_dict ::
  "('z matrix_table_scheme) \<Rightarrow> (string option, int) dict option \<Rightarrow> (mt_col \<Rightarrow> string option) \<Rightarrow>
   (string option, int) dict" where
  "samples_dict mt samples_by_sex sex_field =
     (case samples_by_sex of
        None \<Rightarrow> agg_counter (map sex_field (mt_cols mt))
      | Some d \<Rightarrow> d)"

text \<open>The conditions of the eight categories, by name.\<close>

definition category_conds ::
  "(string \<Rightarrow> string \<Rightarrow> bool) \<Rightarrow> (string \<Rightarrow> string \<Rightarrow> bool) \<Rightarrow>
   ('r \<Rightarrow> string option list expr) \<Rightarrow> ('r \<Rightarrow> string expr) \<Rightarrow> ('r \<Rightarrow> bool expr) \<Rightarrow>
   (string \<times> ('r \<Rightarrow> bool expr)) list" where
  "category_conds is_indel is_snp allele_expr lof_expr no_lof_flags_expr =
     [(''num_variants'', \<lambda>r. lit True),
      (''indels'',
         \<lambda>r. binop is_indel (index_expr (allele_expr r) 0) (index_expr (allele_expr r) 1)),
      (''snps'',
         \<lambda>r. binop is_snp (index_expr (allele_expr r) 0) (index_expr (allele_expr r) 1)),
      (''LOF'', \<lambda>r. is_defined (lof_expr r)),
      (''pass_loftee'', \<lambda>r. hl_eq (lof_expr r) (lit ''HC'')),
      (''pass_loftee_no_flag'',
         \<lambda>r. hl_and (hl_eq (lof_expr r) (lit ''HC'')) (no_lof_flags_expr r)),
      (''loftee_os'', \<lambda>r. hl_eq (lof_expr r) (lit ''OS'')),
      (''fail_loftee'', \<lambda>r. hl_eq (lof_expr r) (lit ''LC''))]"

text \<open>The number of rows on which a condition is true.\<close>

definition count_true :: "('r \<Rightarrow> bool expr) \<Rightarrow> 'r list \<Rightarrow> int" where
  "count_true p rs = int (length (filter (\<lambda>r. p r = Inr (Some True)) rs))"

section \<open>Properties of the frequency binner\<close>

lemmas hl_defs = lit_def missing_def binop_def hl_eq_def hl_le_def hl_lt_def hl_gt_def hl_ge_def
  get_field_def is_defined_def is_missing_def cond_def case_default_def case_or_missing_def
  hl_and_def field_ref_def call_method_def to_float_def

text \<open>
  Claim C1. On a selected frequency struct whose \<open>AC\<close> is defined and not negative and
  whose \<open>AF\<close> is defined, the binner returns the label of the first rule that holds,
  the rules read in the order of the source; this label is one of the ten labels, and
  the only one returned. \<open>AC = 0\<close> gives \<open>Not found\<close>; \<open>AC = 1\<close> with \<open>AF = 1e-6\<close> gives
  \<open>Singleton\<close>, the rules on \<open>AC\<close> coming first; \<open>AC = 10\<close> gives \<open>0.1% - 1%\<close> with
  \<open>AF = 0.005\<close> and \<open>>95%\<close> with \<open>AF = 0.96\<close>.
\<close>

theorem freq_bin_expr_first_true_wins:
  assumes "index_expr freq_expr index = Inr (Some s)"
    and "AC s = Some ac" and "0 \<le> ac" and "AF s = Some af"
  shows "freq_bin_expr freq_expr index =
           Inr (Some
             (if ac = 0 then ''Not found''
              else if ac = 1 then ''Singleton''
              else if ac = 2 then ''Doubleton''
              else if 3 \<le> ac \<and> ac \<le> 5 then ''AC 3 - 5''
              else if af < 1 / 10000 then ''AC 6 - 0.01%''
              else if af < 1 / 1000 then ''0.01% - 0.1%''
              else if af < 1 / 100 then ''0.1% - 1%''
              else if af < 1 / 10 then ''1% - 10%''
              else if af > 95 / 100 then ''>95%''
              else ''10% - 95%''))
         \<and> (\<exists>!l. l \<in> set bin_labels \<and> freq_bin_expr freq_expr index = Inr (Some l))
         \<and> distinct bin_labels \<and> length bin_labels = 10
         \<and> freq_bin_expr (lit [Some \<lparr>AC = Some 0, AN = an0, AF = Some 0\<rparr>]) 0
             = Inr (Some ''Not found'')
         \<and> freq_bin_expr (lit [Some \<lparr>AC = Some 1, AN = an1, AF = Some (1 / 1000000)\<rparr>]) 0
             = Inr (Some ''Singleton'')
         \<and> freq_bin_expr (lit [Some \<lparr>AC = Some 10, AN = an2, AF = Some (5 / 1000)\<rparr>]) 0
             = Inr (Some ''0.1% - 1%'')
         \<and> freq_bin_expr (lit [Some \<lparr>AC = Some 10, AN = an3, AF = Some (96 / 100)\<rparr>]) 0
             = Inr (Some ''>95%'')"
proof -
  let ?l = "if ac = 0 then ''Not found''
              else if ac = 1 then ''Singleton''
              else if ac = 2 then ''Doubleton''
              else if 3 \<le> ac \<and> ac \<le> 5 then ''AC 3 - 5''
              else if af < 1 / 10000 then ''AC 6 - 0.01%''
              else if af < 1 / 1000 then ''0.01% - 0.1%''
              else if af < 1 / 100 then ''0.1% - 1%''
              else if af < 1 / 10 then ''1% - 10%''
              else if af > 95 / 100 then ''>95%''
              else ''10% - 95%''"
  have main: "freq_bin_expr freq_expr index = Inr (Some ?l)"
    using assms by (simp add: freq_bin_expr_def hl_defs)
  have mem: "?l \<in> set bin_labels"
    by (simp add: bin_labels_def)
  have uniq: "\<exists>!l. l \<in> set bin_labels \<and> freq_bin_expr freq_expr index = Inr (Some l)"
    using main mem by auto
  have ex: "freq_bin_expr (lit [Some \<lparr>AC = Some 0, AN = an0, AF = Some 0\<rparr>]) 0
             = Inr (Some ''Not found'')"
    "freq_bin_expr (lit [Some \<lparr>AC = Some 1, AN = an1, AF = Some (1 / 1000000)\<rparr>]) 0
             = Inr (Some ''Singleton'')"
    "freq_bin_expr (lit [Some \<lparr>AC = Some 10, AN = an2, AF = Some (5 / 1000)\<rparr>]) 0
             = Inr (Some ''0.1% - 1%'')"
    "freq_bin_expr (lit [Some \<lparr>AC = Some 10, AN = an3, AF = Some (96 / 100)\<rparr>]) 0
             = Inr (Some ''>95%'')"
    by (simp_all add: freq_bin_expr_def index_expr_def hl_defs)
  have d: "distinct bin_labels" "length bin_labels = 10"
    by (simp_all add: bin_labels_def)
  show ?thesis using main uniq ex d by blast
qed

theorem freq_bin_expr_first_true_wins_witness:
  "index_expr (lit [Some \<lparr>AC = Some 4, AN = Some 1000, AF = Some (4 / 1000)\<rparr>]) 0
     = Inr (Some \<lparr>AC = Some 4, AN = Some 1000, AF = Some (4 / 1000)\<rparr>)
   \<and> freq_bin_expr (lit [Some \<lparr>AC = Some 4, AN = Some 1000, AF = Some (4 / 1000)\<rparr>]) 0
     = Inr (Some ''AC 3 - 5'')"
proof -
  have i: "index_expr (lit [Some \<lparr>AC = Some 4, AN = Some 1000, AF = Some (4 / 1000)\<rparr>]) 0
     = Inr (Some \<lparr>AC = Some 4, AN = Some 1000, AF = Some (4 / 1000)\<rparr>)"
    by (simp add: index_expr_def lit_def)
  show ?thesis
    using i freq_bin_expr_first_true_wins [OF i, of 4 "4 / 1000"] by simp
qed

section \<open>Properties of the consequence filter and of the expression bucket\<close>

lemma expressed_expr_cases:
  "expressed_expr x =
     (case x of
        Inl e \<Rightarrow> Inl e
      | Inr None \<Rightarrow> Inr None
      | Inr (Some v) \<Rightarrow>
          Inr (Some (if v \<ge> 9 / 10 then ''high'' else if v > 1 / 10 then ''medium'' else ''low'')))"
  by (simp add: expressed_expr_def hl_defs split: sum.split option.split)

text \<open>
  Claim C7. The claim gives the bucket \<open>missing\<close> to a row whose mean expression is not
  defined. The builder of line 306 is \<open>hl.case()\<close> without \<open>missing_false\<close>: on a
  missing mean expression its first condition is missing, and so is the result. The
  expression returns the missing value there, and the string \<open>missing\<close> on no input
  at all; the branch \<open>default("missing")\<close> is never reached.
\<close>

theorem expressed_expr_missing:
  "expressed_expr missing = missing
   \<and> expressed_expr missing \<noteq> lit ''missing''
   \<and> (\<forall>x. expressed_expr x \<noteq> lit ''missing'')"
  by (simp add: expressed_expr_cases missing_def lit_def split: sum.split option.split)

text \<open>
  Claim C3. With the default \<open>additional_csq_set\<close> (missense and synonymous), the
  construction of the consequence filter raises \<open>TypeError\<close> at line 289, whatever the
  policy, and so does the builder on every matrix table (here without the
  allele-number filter, which could raise first): no consequence is retained.
\<close>

theorem csq_criteria_additional_TypeError:
  "csq_criteria amsc pre_loftee lof_csq_set {''missense_variant'', ''synonymous_variant''}
     = Inl TypeError
   \<and> default_generate_gene_lof_matrix is_indel pc amsc mt tx_ht filter_field freq_field
        freq_index {''missense_variant'', ''synonymous_variant''} all_transcripts False
        filter_to_rare pre_loftee lof_csq_set remove_ultra_common
     = Inl TypeError"
  by (simp add: csq_criteria_def default_generate_gene_lof_matrix_def filt_criteria_def Let_def)

lemma post_loftee_criteria:
  "hl_and (hl_eq (get_field consequence.lof (Inr x)) (lit ''HC''))
       (is_missing (get_field lof_flags (Inr x)))
     = (case x of
          None \<Rightarrow> Inr None
        | Some c \<Rightarrow>
            (case consequence.lof c of
               None \<Rightarrow> (if lof_flags c = None then Inr None else Inr (Some False))
             | Some l \<Rightarrow> Inr (Some (l = ''HC'' \<and> lof_flags c = None))))"
  by (cases x) (auto simp add: hl_defs split: option.split bool.split)

lemma filter_elems_total:
  "(\<And>x. \<exists>b. f (Inr x) = Inr b) \<Longrightarrow>
   filter_elems f xs = Inr (filter (\<lambda>x. f (Inr x) = Inr (Some True)) xs)"
proof (induction xs)
  case Nil
  then show ?case by simp
next
  case (Cons x xs)
  from Cons.prems obtain b where b: "f (Inr x) = Inr b" by blast
  from Cons have "filter_elems f xs = Inr (filter (\<lambda>x. f (Inr x) = Inr (Some True)) xs)"
    by simp
  with b show ?case by simp
qed

text \<open>
  Claim C9. With \<open>pre_loftee = False\<close> (and no additional consequence set, so that the
  filter is built), the criterion is true on a consequence exactly when the
  consequence is defined, its \<open>lof\<close> is \<open>HC\<close> and its \<open>lof_flags\<close> is missing; it never
  fails. A consequence whose \<open>lof_flags\<close> is present is not classified as LoF, also
  when the flags are the empty string. The array filter keeps exactly the
  consequences so classified.
\<close>

theorem post_loftee_lof_classification:
  "\<exists>criteria. csq_criteria amsc False lof_csq_set {} = Inr criteria
     \<and> (criteria (Inr x) = Inr (Some True))
         = (\<exists>c. x = Some c \<and> consequence.lof c = Some ''HC'' \<and> lof_flags c = None)
     \<and> (\<exists>b. criteria (Inr x) = Inr b)
     \<and> criteria (Inr (Some (c\<lparr>lof_flags := Some flags\<rparr>))) \<noteq> Inr (Some True)
     \<and> criteria (Inr (Some (c\<lparr>lof_flags := Some []\<rparr>))) \<noteq> Inr (Some True)
     \<and> filter_elems criteria xs
         = Inr (filter (\<lambda>x. \<exists>c. x = Some c \<and> consequence.lof c = Some ''HC''
                                \<and> lof_flags c = None) xs)"
proof -
  define crit :: "consequence expr \<Rightarrow> bool expr" where
    "crit = (\<lambda>x. hl_and (hl_eq (get_field consequence.lof x) (lit ''HC''))
                          (is_missing (get_field lof_flags x)))"
  have c: "csq_criteria amsc False lof_csq_set {} = Inr crit"
    by (simp add: csq_criteria_def crit_def)
  have t: "(crit (Inr y) = Inr (Some True))
             = (\<exists>c. y = Some c \<and> consequence.lof c = Some ''HC'' \<and> lof_flags c = None)" for y
    unfolding crit_def post_loftee_criteria by (cases y) (auto split: option.split)
  have e: "\<exists>b. crit (Inr y) = Inr b" for y
    unfolding crit_def post_loftee_criteria by (cases y) (auto split: option.split)
  have f: "filter_elems crit xs = Inr (filter (\<lambda>x. crit (Inr x) = Inr (Some True)) xs)"
    by (rule filter_elems_total) (rule e)
  have f': "filter_elems crit xs
         = Inr (filter (\<lambda>x. \<exists>c. x = Some c \<and> consequence.lof c = Some ''HC''
                                \<and> lof_flags c = None) xs)"
    using f by (simp only: t)
  have n: "crit (Inr (Some (c\<lparr>lof_flags := Some fl\<rparr>))) \<noteq> Inr (Some True)" for fl
    by (simp add: t)
  show ?thesis
    by (intro exI [of _ crit] conjI c t e n f')
qed

section \<open>Properties of the allele-number criterion\<close>

lemma map_of_agg_counter:
  "map_of (agg_counter xs) k = (if k \<in> set xs then Some (int (count_list xs k)) else None)"
  by (simp add: agg_counter_def map_of_map_restrict restrict_map_def)

lemma sum_agg_counter: "sum_list (dict_values (agg_counter xs)) = int (length xs)"
proof -
  have "sum_list (map (\<lambda>k. int (count_list xs k)) (remdups xs))
          = (\<Sum>k\<in>set xs. int (count_list xs k))"
    using sum_list_distinct_conv_sum_set [of "remdups xs" "\<lambda>k. int (count_list xs k)"] by simp
  also have "\<dots> = int (\<Sum>k\<in>set xs. count_list xs k)" by simp
  also have "\<dots> = int (length xs)" by (simp add: sum_count_set)
  finally show ?thesis by (simp add: dict_values_def agg_counter_def comp_def)
qed

lemma an_when:
  "binop f64_ge (to_float (get_field AN (index_expr fr i))) (lit b) = an_at_least fr i b"
  by (simp add: an_at_least_def hl_defs split: sum.split option.split)

lemma an_case_body:
  "case_or_missing False
      [(call_method in_autosome_or_par (field_ref locus r), t1),
       (call_method in_x_nonpar (field_ref locus r), t2),
       (call_method in_y_nonpar (field_ref locus r), t3)]
    = (case locus r of
         None \<Rightarrow> Inr None
       | Some l \<Rightarrow>
           if in_autosome_or_par l then t1
           else if in_x_nonpar l then t2
           else if in_y_nonpar l then t3
           else Inr None)"
  by (simp add: hl_defs split: option.split)

lemma get_an_adj_criteria_unfold:
  "get_an_adj_criteria mt samples_by_sex sex_field xy_str xx_str freq_field freq_index cutoff =
     (case map_of (samples_dict mt samples_by_sex sex_field) (Some xy_str) of
        None \<Rightarrow> Inl KeyError
      | Some xy \<Rightarrow>
          (case map_of (samples_dict mt samples_by_sex sex_field) (Some xx_str) of
             None \<Rightarrow> Inl KeyError
           | Some xx \<Rightarrow>
               Inr (\<lambda>r. case locus r of
                      None \<Rightarrow> Inr None
                    | Some l \<Rightarrow>
                        if in_autosome_or_par l
                        then an_at_least (field_ref freq_field r) freq_index
                               (f64_mul (f64_mul (round_f64 cutoff) (f64_of_int 2))
                                  (f64_of_int (sum_list (dict_values
                                     (samples_dict mt samples_by_sex sex_field)))))
                        else if in_x_nonpar l
                        then an_at_least (field_ref freq_field r) freq_index
                               (f64_mul (round_f64 cutoff) (f64_of_int (xy + xx * 2)))
                        else if in_y_nonpar l
                        then an_at_least (field_ref freq_field r) freq_index
                               (f64_mul (round_f64 cutoff) (f64_of_int xy))
                        else Inr None)))"
  unfolding get_an_adj_criteria_def samples_dict_def [symmetric]
  by (simp add: dict_getitem_def an_when an_case_body Let_def split: option.split)


text \<open>
  Claim C10. The two lookups \<open>samples_by_sex[xy_str]\<close> and \<open>samples_by_sex[xx_str]\<close>
  happen while the expression is built. When the dictionary, supplied by the caller
  or counted from the samples, lacks one of the two keys, the function raises
  \<open>KeyError\<close>, whatever the rows of the matrix table are. The counted dictionary has
  exactly the sex values that occur among the samples as its keys.
\<close>

theorem get_an_adj_criteria_KeyError:
  assumes "map_of (samples_dict mt samples_by_sex sex_field) (Some xy_str) = None
           \<or> map_of (samples_dict mt samples_by_sex sex_field) (Some xx_str) = None"
  shows "get_an_adj_criteria mt samples_by_sex sex_field xy_str xx_str freq_field freq_index
           an_proportion_cutoff = Inl KeyError
         \<and> get_an_adj_criteria (mt\<lparr>mt_rows := rs\<rparr>) samples_by_sex sex_field xy_str xx_str
             freq_field freq_index an_proportion_cutoff = Inl KeyError
         \<and> map_of (samples_dict mt None sex_field) k
             = (if k \<in> set (map sex_field (mt_cols mt))
                then Some (int (count_list (map sex_field (mt_cols mt)) k)) else None)"
proof -
  have same: "samples_dict (mt\<lparr>mt_rows := rs\<rparr>) samples_by_sex sex_field
                = samples_dict mt samples_by_sex sex_field"
    by (cases samples_by_sex) (simp_all add: samples_dict_def)
  have 1: "get_an_adj_criteria mt samples_by_sex sex_field xy_str xx_str freq_field freq_index
           an_proportion_cutoff = Inl KeyError"
    using assms by (auto simp add: get_an_adj_criteria_unfold split: option.split)
  have 2: "get_an_adj_criteria (mt\<lparr>mt_rows := rs\<rparr>) samples_by_sex sex_field xy_str xx_str
             freq_field freq_index an_proportion_cutoff = Inl KeyError"
    using assms by (auto simp add: get_an_adj_criteria_unfold same split: option.split)
  have 3: "map_of (samples_dict mt None sex_field) k
             = (if k \<in> set (map sex_field (mt_cols mt))
                then Some (int (count_list (map sex_field (mt_cols mt)) k)) else None)"
    by (simp only: samples_dict_def option.case map_of_agg_counter)
  show ?thesis using 1 2 3 by (intro conjI)
qed

theorem get_an_adj_criteria_KeyError_witness:
  "map_of (samples_dict \<lparr>mt_rows = [], mt_cols = [\<lparr>sex_karyotype = Some ''XX''\<rparr>]\<rparr> None
             sex_karyotype) (Some ''XY'') = None
   \<and> get_an_adj_criteria \<lparr>mt_rows = [], mt_cols = [\<lparr>sex_karyotype = Some ''XX''\<rparr>]\<rparr> None
        sex_karyotype ''XY'' ''XX'' freq 0 (8 / 10) = Inl KeyError"
proof -
  have h: "map_of (samples_dict \<lparr>mt_rows = [], mt_cols = [\<lparr>sex_karyotype = Some ''XX''\<rparr>]\<rparr> None
             sex_karyotype) (Some ''XY'') = None"
    by (simp add: samples_dict_def agg_counter_def)
  from h have "map_of (samples_dict \<lparr>mt_rows = [], mt_cols = [\<lparr>sex_karyotype = Some ''XX''\<rparr>]\<rparr> None
             sex_karyotype) (Some ''XY'') = None
           \<or> map_of (samples_dict \<lparr>mt_rows = [], mt_cols = [\<lparr>sex_karyotype = Some ''XX''\<rparr>]\<rparr> None
             sex_karyotype) (Some ''XX'') = None" ..
  from get_an_adj_criteria_KeyError [OF this] h show ?thesis by blast
qed

text \<open>Float products at the inputs of the examples below.\<close>

lemma float_0_56_times_2_times_25:
  "f64_mul (f64_mul (round_f64 (56 / 100)) (f64_of_int 2)) (f64_of_int 25)
     = Finite (7881299347898369 / 281474976710656)"
  by code_simp

lemma float_0_8_times_2_times_20:
  "f64_mul (f64_mul (round_f64 (8 / 10)) (f64_of_int 2)) (f64_of_int 20) = Finite 32"
  by code_simp

lemma float_0_8_times_3:
  "f64_mul (round_f64 (8 / 10)) (f64_of_int 3) = Finite (1351079888211149 / 562949953421312)"
  by code_simp

lemma float_0_8:
  "round_f64 (8 / 10) = Finite (3602879701896397 / 4503599627370496)"
  by code_simp

lemma float_0_8_is_a_double:
  "round_f64 (3602879701896397 / 4503599627370496)
     = Finite (3602879701896397 / 4503599627370496)"
  by code_simp

text \<open>
  Claim C5 says that the criterion is \<open>AN >= cutoff * 2 * total\<close>, and likewise on the
  sex chromosomes, for every cutoff. The code compares \<open>AN\<close> with a product of
  Python floats, rounded at each multiplication. With the cutoff 0.56 and 25
  samples the float product \<open>0.56 * 2 * 25\<close> is 28.000000000000004 (the rational
  below), above the product 28 of the numbers written: on an autosomal locus with
  \<open>AN = 28\<close> the criterion is false, and \<open>28 >= 0.56 * 2 * 25\<close> is true. Reading the
  cutoff as the exact value of its double does not help: with the cutoff 0.8 and 20
  samples the float product is 32, below the exact product of the double 0.8 with
  40, and with \<open>AN = 32\<close> the criterion is true where the exact comparison is false.
\<close>

theorem an_adj_criteria_exact_product_counterexample:
  "eval_criteria
        (get_an_adj_criteria \<lparr>mt_rows = [], mt_cols = []\<rparr>
           (Some [(Some ''XY'', 12), (Some ''XX'', 13)]) sex_karyotype ''XY'' ''XX'' freq 0 (56 / 100))
        \<lparr>filters = Some {||},
          freq = Some [Some \<lparr>AC = Some 1, AN = Some 28, AF = Some (1 / 2)\<rparr>],
          alleles = Some [Some ''A'', Some ''T''],
          locus = Some \<lparr>contig = ''chr1'', position = 1000, in_autosome_or_par = True,
                         in_x_nonpar = False, in_y_nonpar = False\<rparr>,
          vep = None\<rparr>
      = lit False
   \<and> (56 / 100 :: rat) * 2 * of_int (12 + 13) \<le> of_int 28
   \<and> eval_criteria
        (get_an_adj_criteria \<lparr>mt_rows = [], mt_cols = []\<rparr>
           (Some [(Some ''XY'', 10), (Some ''XX'', 10)]) sex_karyotype ''XY'' ''XX'' freq 0 (8 / 10))
        \<lparr>filters = Some {||},
          freq = Some [Some \<lparr>AC = Some 1, AN = Some 32, AF = Some (1 / 2)\<rparr>],
          alleles = Some [Some ''A'', Some ''T''],
          locus = Some \<lparr>contig = ''chr1'', position = 1000, in_autosome_or_par = True,
                         in_x_nonpar = False, in_y_nonpar = False\<rparr>,
          vep = None\<rparr>
      = lit True
   \<and> round_f64 (8 / 10) = Finite (3602879701896397 / 4503599627370496)
   \<and> \<not> (3602879701896397 / 4503599627370496 :: rat) * 2 * of_int (10 + 10) \<le> of_int 32"
proof -
  have 1: "eval_criteria
        (get_an_adj_criteria \<lparr>mt_rows = [], mt_cols = []\<rparr>
           (Some [(Some ''XY'', 12), (Some ''XX'', 13)]) sex_karyotype ''XY'' ''XX'' freq 0 (56 / 100))
        \<lparr>filters = Some {||},
          freq = Some [Some \<lparr>AC = Some 1, AN = Some 28, AF = Some (1 / 2)\<rparr>],
          alleles = Some [Some ''A'', Some ''T''],
          locus = Some \<lparr>contig = ''chr1'', position = 1000, in_autosome_or_par = True,
                         in_x_nonpar = False, in_y_nonpar = False\<rparr>,
          vep = None\<rparr>
      = lit False"
    using float_0_56_times_2_times_25 unfolding get_an_adj_criteria_unfold
    by (simp add: eval_criteria_def samples_dict_def dict_values_def an_at_least_def
        index_expr_def field_ref_def lit_def f64_ge_def)
  have 2: "eval_criteria
        (get_an_adj_criteria \<lparr>mt_rows = [], mt_cols = []\<rparr>
           (Some [(Some ''XY'', 10), (Some ''XX'', 10)]) sex_karyotype ''XY'' ''XX'' freq 0 (8 / 10))
        \<lparr>filters = Some {||},
          freq = Some [Some \<lparr>AC = Some 1, AN = Some 32, AF = Some (1 / 2)\<rparr>],
          alleles = Some [Some ''A'', Some ''T''],
          locus = Some \<lparr>contig = ''chr1'', position = 1000, in_autosome_or_par = True,
                         in_x_nonpar = False, in_y_nonpar = False\<rparr>,
          vep = None\<rparr>
      = lit True"
    using float_0_8_times_2_times_20 unfolding get_an_adj_criteria_unfold
    by (simp add: eval_criteria_def samples_dict_def dict_values_def an_at_least_def
        index_expr_def field_ref_def lit_def f64_ge_def)
  have 3: "(56 / 100 :: rat) * 2 * of_int (12 + 13) \<le> of_int 28"
    by simp
  have 4: "\<not> (3602879701896397 / 4503599627370496 :: rat) * 2 * of_int (10 + 10) \<le> of_int 32"
    by simp
  show ?thesis
    using 1 2 3 4 float_0_8 by (intro conjI)
qed

text \<open>
  Claim C5, amended. When both keys are present the function returns the criterion,
  and on every row and for every cutoff the criterion compares \<open>AN\<close> with a bound
  computed in double precision, every product rounded to the nearest double: the
  float product of \<open>cutoff * 2\<close> and the total on an autosomal or pseudo-autosomal
  locus, the float product of the cutoff and \<open>xy + 2 * xx\<close> on an X locus outside the
  pseudo-autosomal region, that of the cutoff and \<open>xy\<close> on such a Y locus; it is
  missing on a locus of no such class (and on a missing locus). The total is the sum
  of the dictionary's values: the number of samples when the dictionary is counted
  from them.
\<close>

theorem get_an_adj_criteria_by_locus_class:
  assumes "map_of (samples_dict mt samples_by_sex sex_field) (Some xy_str) = Some xy"
    and "map_of (samples_dict mt samples_by_sex sex_field) (Some xx_str) = Some xx"
  shows "\<exists>crit.
           get_an_adj_criteria mt samples_by_sex sex_field xy_str xx_str freq_field freq_index
             an_proportion_cutoff = Inr crit
           \<and> (\<forall>r. crit r =
                 (case locus r of
                    None \<Rightarrow> Inr None
                  | Some l \<Rightarrow>
                      if in_autosome_or_par l
                      then an_at_least (field_ref freq_field r) freq_index
                             (f64_mul (f64_mul (round_f64 an_proportion_cutoff) (f64_of_int 2))
                                (f64_of_int (sum_list (dict_values
                                   (samples_dict mt samples_by_sex sex_field)))))
                      else if in_x_nonpar l
                      then an_at_least (field_ref freq_field r) freq_index
                             (f64_mul (round_f64 an_proportion_cutoff) (f64_of_int (xy + xx * 2)))
                      else if in_y_nonpar l
                      then an_at_least (field_ref freq_field r) freq_index
                             (f64_mul (round_f64 an_proportion_cutoff) (f64_of_int xy))
                      else Inr None))
           \<and> sum_list (dict_values (samples_dict mt None sex_field)) = int (length (mt_cols mt))"
proof -
  have "sum_list (dict_values (samples_dict mt None sex_field)) = int (length (mt_cols mt))"
    by (simp add: samples_dict_def sum_agg_counter)
  then show ?thesis
    using assms by (simp add: get_an_adj_criteria_unfold)
qed

theorem get_an_adj_criteria_by_locus_class_witness:
  "map_of (samples_dict \<lparr>mt_rows = [], mt_cols = [\<lparr>sex_karyotype = Some ''XX''\<rparr>,
        \<lparr>sex_karyotype = Some ''XY''\<rparr>]\<rparr> None sex_karyotype) (Some ''XY'') = Some 1
   \<and> map_of (samples_dict \<lparr>mt_rows = [], mt_cols = [\<lparr>sex_karyotype = Some ''XX''\<rparr>,
        \<lparr>sex_karyotype = Some ''XY''\<rparr>]\<rparr> None sex_karyotype) (Some ''XX'') = Some 1
   \<and> eval_criteria
        (get_an_adj_criteria \<lparr>mt_rows = [], mt_cols = [\<lparr>sex_karyotype = Some ''XX''\<rparr>,
           \<lparr>sex_karyotype = Some ''XY''\<rparr>]\<rparr> None sex_karyotype ''XY'' ''XX'' freq 0 (8 / 10))
        \<lparr>filters = Some {||},
          freq = Some [Some \<lparr>AC = Some 1, AN = Some 2, AF = Some (1 / 2)\<rparr>],
          alleles = Some [Some ''A'', Some ''T''],
          locus = Some \<lparr>contig = ''chrX'', position = 5000000, in_autosome_or_par = False,
                         in_x_nonpar = True, in_y_nonpar = False\<rparr>,
          vep = None\<rparr>
      = Inr (Some False)"
proof -
  let ?mt = "\<lparr>mt_rows = [], mt_cols = [\<lparr>sex_karyotype = Some ''XX''\<rparr>,
        \<lparr>sex_karyotype = Some ''XY''\<rparr>]\<rparr>"
  let ?r = "\<lparr>filters = Some {||},
          freq = Some [Some \<lparr>AC = Some 1, AN = Some 2, AF = Some (1 / 2)\<rparr>],
          alleles = Some [Some ''A'', Some ''T''],
          locus = Some \<lparr>contig = ''chrX'', position = 5000000, in_autosome_or_par = False,
                         in_x_nonpar = True, in_y_nonpar = False\<rparr>,
          vep = None\<rparr>"
  have a: "map_of (samples_dict ?mt None sex_karyotype) (Some ''XY'') = Some 1"
    by (simp add: samples_dict_def agg_counter_def)
  have b: "map_of (samples_dict ?mt None sex_karyotype) (Some ''XX'') = Some 1"
    by (simp add: samples_dict_def agg_counter_def)
  from get_an_adj_criteria_by_locus_class [OF a b, of freq 0 "8 / 10"]
  obtain crit where c: "get_an_adj_criteria ?mt None sex_karyotype ''XY'' ''XX'' freq 0 (8 / 10)
                          = Inr crit"
    and r: "crit ?r = an_at_least (field_ref freq ?r) 0
                        (f64_mul (round_f64 (8 / 10)) (f64_of_int (1 + 1 * 2)))"
    by auto
  have "an_at_least (field_ref freq ?r) 0 (f64_mul (round_f64 (8 / 10)) (f64_of_int (1 + 1 * 2)))
          = Inr (Some False)"
    using float_0_8_times_3
    by (simp add: an_at_least_def index_expr_def field_ref_def f64_ge_def)
  with a b c r show ?thesis
    by (simp only: eval_criteria_def sum.case)
qed

section \<open>Missing frequency inputs\<close>

lemma an_at_least_AN:
  "an_at_least fr i b =
     (case get_field AN (index_expr fr i) of
        Inl e \<Rightarrow> Inl e
      | Inr None \<Rightarrow> Inr None
      | Inr (Some n) \<Rightarrow> Inr (Some (f64_ge (Finite (of_int n)) b)))"
  by (simp add: an_at_least_def get_field_def split: sum.split option.split)

text \<open>
  Claim C2 says that missing frequency inputs give a missing bin, and that a missing
  value in any frequency field gives a missing allele-number criterion. The binner
  is built with \<open>missing_false=True\<close> and closed by a default: on a missing struct,
  and on a struct whose \<open>AC\<close> and \<open>AF\<close> are missing, every condition counts as false
  and the default label \<open>10% - 95%\<close> is returned. The criterion reads \<open>AN\<close> only: with
  \<open>AC\<close> and \<open>AF\<close> missing and \<open>AN = 40\<close>, twenty samples and the cutoff 0.8 it is true.
\<close>

theorem missing_frequency_inputs_counterexample:
  "freq_bin_expr (lit [None]) 0 = lit ''10% - 95%''
   \<and> freq_bin_expr (lit [None]) 0 \<noteq> missing
   \<and> freq_bin_expr (lit [Some \<lparr>AC = None, AN = Some 40, AF = None\<rparr>]) 0 = lit ''10% - 95%''
   \<and> eval_criteria
        (get_an_adj_criteria \<lparr>mt_rows = [], mt_cols = []\<rparr>
           (Some [(Some ''XY'', 10), (Some ''XX'', 10)]) sex_karyotype ''XY'' ''XX'' freq 0 (8 / 10))
        \<lparr>filters = Some {||},
          freq = Some [Some \<lparr>AC = None, AN = Some 40, AF = None\<rparr>],
          alleles = Some [Some ''A'', Some ''T''],
          locus = Some \<lparr>contig = ''chr1'', position = 1000, in_autosome_or_par = True,
                         in_x_nonpar = False, in_y_nonpar = False\<rparr>,
          vep = None\<rparr>
      = lit True"
proof -
  have 1: "freq_bin_expr (lit [None]) 0 = lit ''10% - 95%''"
    by (simp add: freq_bin_expr_def index_expr_def hl_defs)
  have 2: "freq_bin_expr (lit [None]) 0 \<noteq> missing"
    by (simp add: 1) (simp add: lit_def missing_def)
  have 3: "freq_bin_expr (lit [Some \<lparr>AC = None, AN = Some 40, AF = None\<rparr>]) 0 = lit ''10% - 95%''"
    by (simp add: freq_bin_expr_def index_expr_def hl_defs)
  have 4: "eval_criteria
        (get_an_adj_criteria \<lparr>mt_rows = [], mt_cols = []\<rparr>
           (Some [(Some ''XY'', 10), (Some ''XX'', 10)]) sex_karyotype ''XY'' ''XX'' freq 0 (8 / 10))
        \<lparr>filters = Some {||},
          freq = Some [Some \<lparr>AC = None, AN = Some 40, AF = None\<rparr>],
          alleles = Some [Some ''A'', Some ''T''],
          locus = Some \<lparr>contig = ''chr1'', position = 1000, in_autosome_or_par = True,
                         in_x_nonpar = False, in_y_nonpar = False\<rparr>,
          vep = None\<rparr>
      = lit True"
    using float_0_8_times_2_times_20 unfolding get_an_adj_criteria_unfold
    by (simp add: eval_criteria_def samples_dict_def dict_values_def an_at_least_def
        index_expr_def field_ref_def lit_def f64_ge_def)
  show ?thesis using 1 2 3 4 by (intro conjI)
qed

text \<open>
  Claim C2, amended. When the selected frequency struct is missing, or its \<open>AC\<close> and
  its \<open>AF\<close> are, the binner returns the default label \<open>10% - 95%\<close> and raises no
  error. When the \<open>AN\<close> that the allele-number criterion reads is missing (the
  frequency array, the struct or the field), the criterion is missing, on every
  locus; the criterion depends on the locus and on \<open>AN\<close> only, not on \<open>AC\<close> or \<open>AF\<close>.
\<close>

theorem missing_frequency_inputs:
  "(index_expr freq_expr index = Inr None
      \<or> (\<exists>s. index_expr freq_expr index = Inr (Some s) \<and> AC s = None \<and> AF s = None)
     \<longrightarrow> freq_bin_expr freq_expr index = lit ''10% - 95%'')
   \<and> (get_an_adj_criteria mt samples_by_sex sex_field xy_str xx_str freq_field freq_index
         an_proportion_cutoff = Inr crit
       \<and> get_field AN (index_expr (field_ref freq_field r) freq_index) = Inr None
     \<longrightarrow> crit r = Inr None)
   \<and> (get_an_adj_criteria mt samples_by_sex sex_field xy_str xx_str freq_field freq_index
         an_proportion_cutoff = Inr crit
       \<and> locus r = locus r'
       \<and> get_field AN (index_expr (field_ref freq_field r) freq_index)
           = get_field AN (index_expr (field_ref freq_field r') freq_index)
     \<longrightarrow> crit r = crit r')"
proof (intro conjI impI)
  assume "index_expr freq_expr index = Inr None
      \<or> (\<exists>s. index_expr freq_expr index = Inr (Some s) \<and> AC s = None \<and> AF s = None)"
  then show "freq_bin_expr freq_expr index = lit ''10% - 95%''"
    by (auto simp add: freq_bin_expr_def hl_defs)
next
  assume a: "get_an_adj_criteria mt samples_by_sex sex_field xy_str xx_str freq_field freq_index
         an_proportion_cutoff = Inr crit
       \<and> get_field AN (index_expr (field_ref freq_field r) freq_index) = Inr None"
  then show "crit r = Inr None"
    by (auto simp add: get_an_adj_criteria_unfold an_at_least_AN split: option.splits)
next
  assume a: "get_an_adj_criteria mt samples_by_sex sex_field xy_str xx_str freq_field freq_index
         an_proportion_cutoff = Inr crit
       \<and> locus r = locus r'
       \<and> get_field AN (index_expr (field_ref freq_field r) freq_index)
           = get_field AN (index_expr (field_ref freq_field r') freq_index)"
  then show "crit r = crit r'"
    by (auto simp add: get_an_adj_criteria_unfold an_at_least_AN split: option.splits)
qed


theorem missing_frequency_inputs_witness:
  "index_expr (lit [None]) 0 = (Inr None :: freq_struct expr)
   \<and> freq_bin_expr (lit [None]) 0 = lit ''10% - 95%''
   \<and> get_field AN (index_expr (field_ref freq
        \<lparr>filters = Some {||},
          freq = Some [Some \<lparr>AC = Some 3, AN = None, AF = Some (1 / 10)\<rparr>],
          alleles = Some [Some ''A'', Some ''T''],
          locus = Some \<lparr>contig = ''chr1'', position = 1000, in_autosome_or_par = True,
                         in_x_nonpar = False, in_y_nonpar = False\<rparr>,
          vep = None\<rparr>) 0) = Inr None
   \<and> eval_criteria
        (get_an_adj_criteria \<lparr>mt_rows = [], mt_cols = []\<rparr>
           (Some [(Some ''XY'', 10), (Some ''XX'', 10)]) sex_karyotype ''XY'' ''XX'' freq 0 (8 / 10))
        \<lparr>filters = Some {||},
          freq = Some [Some \<lparr>AC = Some 3, AN = None, AF = Some (1 / 10)\<rparr>],
          alleles = Some [Some ''A'', Some ''T''],
          locus = Some \<lparr>contig = ''chr1'', position = 1000, in_autosome_or_par = True,
                         in_x_nonpar = False, in_y_nonpar = False\<rparr>,
          vep = None\<rparr>
      = Inr None
   \<and> eval_criteria
        (get_an_adj_criteria \<lparr>mt_rows = [], mt_cols = []\<rparr>
           (Some [(Some ''XY'', 10), (Some ''XX'', 10)]) sex_karyotype ''XY'' ''XX'' freq 0 (8 / 10))
        \<lparr>filters = Some {||},
          freq = Some [Some \<lparr>AC = Some 3, AN = Some 40, AF = Some (1 / 10)\<rparr>],
          alleles = Some [Some ''A'', Some ''T''],
          locus = Some \<lparr>contig = ''chr1'', position = 1000, in_autosome_or_par = True,
                         in_x_nonpar = False, in_y_nonpar = False\<rparr>,
          vep = None\<rparr>
      = eval_criteria
        (get_an_adj_criteria \<lparr>mt_rows = [], mt_cols = []\<rparr>
           (Some [(Some ''XY'', 10), (Some ''XX'', 10)]) sex_karyotype ''XY'' ''XX'' freq 0 (8 / 10))
        \<lparr>filters = Some {||},
          freq = Some [Some \<lparr>AC = None, AN = Some 40, AF = None\<rparr>],
          alleles = Some [Some ''A'', Some ''T''],
          locus = Some \<lparr>contig = ''chr1'', position = 1000, in_autosome_or_par = True,
                         in_x_nonpar = False, in_y_nonpar = False\<rparr>,
          vep = None\<rparr>"
proof -
  let ?g = "get_an_adj_criteria \<lparr>mt_rows = [], mt_cols = []\<rparr>
           (Some [(Some ''XY'', 10), (Some ''XX'', 10)]) sex_karyotype ''XY'' ''XX'' freq 0 (8 / 10)"
  let ?A = "\<lparr>filters = Some {||},
          freq = Some [Some \<lparr>AC = Some 3, AN = None, AF = Some (1 / 10)\<rparr>],
          alleles = Some [Some ''A'', Some ''T''],
          locus = Some \<lparr>contig = ''chr1'', position = 1000, in_autosome_or_par = True,
                         in_x_nonpar = False, in_y_nonpar = False\<rparr>,
          vep = None\<rparr>"
  let ?B = "\<lparr>filters = Some {||},
          freq = Some [Some \<lparr>AC = Some 3, AN = Some 40, AF = Some (1 / 10)\<rparr>],
          alleles = Some [Some ''A'', Some ''T''],
          locus = Some \<lparr>contig = ''chr1'', position = 1000, in_autosome_or_par = True,
                         in_x_nonpar = False, in_y_nonpar = False\<rparr>,
          vep = None\<rparr>"
  let ?C = "\<lparr>filters = Some {||},
          freq = Some [Some \<lparr>AC = None, AN = Some 40, AF = None\<rparr>],
          alleles = Some [Some ''A'', Some ''T''],
          locus = Some \<lparr>contig = ''chr1'', position = 1000, in_autosome_or_par = True,
                         in_x_nonpar = False, in_y_nonpar = False\<rparr>,
          vep = None\<rparr>"
  obtain crit where g: "?g = Inr crit"
    by (simp add: get_an_adj_criteria_unfold samples_dict_def)
  have i: "index_expr (lit [None]) 0 = (Inr None :: freq_struct expr)"
    by (simp add: index_expr_def lit_def)
  have a: "get_field AN (index_expr (field_ref freq ?A) 0) = Inr None"
    by (simp add: index_expr_def field_ref_def get_field_def)
  have bc: "get_field AN (index_expr (field_ref freq ?B) 0)
              = get_field AN (index_expr (field_ref freq ?C) 0)"
    by (simp add: index_expr_def field_ref_def get_field_def)
  have l: "locus ?B = locus ?C"
    by simp
  note t = missing_frequency_inputs
  have 1: "freq_bin_expr (lit [None]) 0 = lit ''10% - 95%''"
    using t [where freq_expr = "lit [None]" and index = 0] i by blast
  have 2: "crit ?A = Inr None"
    using missing_frequency_inputs [where crit = crit and r = ?A and freq_field = freq
        and freq_index = 0] g a by blast
  have 3: "crit ?B = crit ?C"
    using missing_frequency_inputs [where crit = crit and r = ?B and r' = ?C
        and freq_field = freq and freq_index = 0] g bc l by blast
  show ?thesis
    using i 1 a 2 3 by (simp only: g eval_criteria_def sum.case) 
qed

section \<open>Properties of the row filter\<close>

lemma table_filter_Inr:
  "table_filter p rs = Inr out \<Longrightarrow> out = filter (\<lambda>r. p r = Inr (Some True)) rs"
  by (induction rs arbitrary: out) (auto split: sum.splits if_splits)

lemma table_filter_and:
  "table_filter (\<lambda>r. hl_and (c r) (q r)) rs = Inr r1 \<Longrightarrow>
   \<exists>r0. table_filter c rs = Inr r0 \<and> r1 = filter (\<lambda>r. q r = Inr (Some True)) r0"
proof (induction rs arbitrary: r1)
  case Nil
  then show ?case by simp
next
  case (Cons r rs)
  from Cons.prems obtain b t where b: "hl_and (c r) (q r) = Inr b"
    and t: "table_filter (\<lambda>r. hl_and (c r) (q r)) rs = Inr t"
    and r1: "r1 = (if b = Some True then r # t else t)"
    by (auto split: sum.splits)
  from Cons.IH [OF t] obtain t0 where t0: "table_filter c rs = Inr t0"
    and tt: "t = filter (\<lambda>r. q r = Inr (Some True)) t0"
    by blast
  from b obtain cb where cb: "c r = Inr cb"
    by (cases "c r") (auto simp add: hl_and_def)
  have k: "(b = Some True) = (cb = Some True \<and> q r = Inr (Some True))"
    using b cb by (auto simp add: hl_and_def split: sum.splits option.splits bool.splits)
  show ?case
    using t0 tt cb r1 k by auto
qed

lemma filt_criteria_rare:
  "filt_criteria mt filter_field freq_field freq_index filter_an True remove_ultra_common =
     (case filt_criteria mt filter_field freq_field freq_index filter_an False remove_ultra_common of
        Inl e \<Rightarrow> Inl e
      | Inr c \<Rightarrow>
          Inr (\<lambda>r. hl_and (c r)
                 (hl_lt (get_field AF (index_expr (field_ref freq_field r) freq_index))
                    (lit (5 / 100)))))"
  by (simp add: filt_criteria_def Let_def split: sum.split)

text \<open>
  Claim C8, amended. With all other parameters equal, whenever the row filter with
  \<open>filter_to_rare = True\<close> succeeds, so does the one with \<open>filter_to_rare = False\<close>,
  and the rows retained by the first are among the rows retained by the second:
  they are those of the second whose \<open>AF\<close> is defined and below 0.05. The inclusion
  need not be strict.
\<close>

theorem rare_rows_subset:
  assumes "retained_rows mt filter_field freq_field freq_index filter_an True remove_ultra_common
             = Inr rare"
  shows "\<exists>rs. retained_rows mt filter_field freq_field freq_index filter_an False
                 remove_ultra_common = Inr rs
              \<and> set rare \<subseteq> set rs
              \<and> rare = filter (\<lambda>r. hl_lt (get_field AF (index_expr (field_ref freq_field r)
                                     freq_index)) (lit (5 / 100)) = Inr (Some True)) rs"
proof -
  from assms obtain c where
    c: "filt_criteria mt filter_field freq_field freq_index filter_an False remove_ultra_common
          = Inr c"
    and f: "table_filter (\<lambda>r. hl_and (c r)
                 (hl_lt (get_field AF (index_expr (field_ref freq_field r) freq_index))
                    (lit (5 / 100)))) (mt_rows mt) = Inr rare"
    by (auto simp add: retained_rows_def filt_criteria_rare split: sum.splits)
  from table_filter_and [OF f] obtain rs where
    rs: "table_filter c (mt_rows mt) = Inr rs"
    and eq: "rare = filter (\<lambda>r. hl_lt (get_field AF (index_expr (field_ref freq_field r)
                                     freq_index)) (lit (5 / 100)) = Inr (Some True)) rs"
    by blast
  have "retained_rows mt filter_field freq_field freq_index filter_an False remove_ultra_common
          = Inr rs"
    by (simp add: retained_rows_def c rs)
  moreover have "set rare \<subseteq> set rs"
    by (subst eq) auto
  ultimately show ?thesis using eq by blast
qed

text \<open>
  Claim C8 says that the rows retained with \<open>filter_to_rare = True\<close> are a strict
  subset of those retained with \<open>filter_to_rare = False\<close>. On a matrix table whose
  only row passes the filters and has \<open>AF = 0.01\<close>, both calls retain that row: the
  two sets are equal.
\<close>

theorem rare_rows_strict_subset_counterexample:
  "retained_rows
     \<lparr>mt_rows = [\<lparr>filters = Some {||},
                   freq = Some [Some \<lparr>AC = Some 2, AN = Some 200, AF = Some (1 / 100)\<rparr>],
                   alleles = Some [Some ''A'', Some ''T''],
                   locus = Some \<lparr>contig = ''chr1'', position = 1000, in_autosome_or_par = True,
                                  in_x_nonpar = False, in_y_nonpar = False\<rparr>,
                   vep = None\<rparr>],
       mt_cols = []\<rparr> filters freq 0 False True False
   = retained_rows
     \<lparr>mt_rows = [\<lparr>filters = Some {||},
                   freq = Some [Some \<lparr>AC = Some 2, AN = Some 200, AF = Some (1 / 100)\<rparr>],
                   alleles = Some [Some ''A'', Some ''T''],
                   locus = Some \<lparr>contig = ''chr1'', position = 1000, in_autosome_or_par = True,
                                  in_x_nonpar = False, in_y_nonpar = False\<rparr>,
                   vep = None\<rparr>],
       mt_cols = []\<rparr> filters freq 0 False False False
   \<and> retained_rows
     \<lparr>mt_rows = [\<lparr>filters = Some {||},
                   freq = Some [Some \<lparr>AC = Some 2, AN = Some 200, AF = Some (1 / 100)\<rparr>],
                   alleles = Some [Some ''A'', Some ''T''],
                   locus = Some \<lparr>contig = ''chr1'', position = 1000, in_autosome_or_par = True,
                                  in_x_nonpar = False, in_y_nonpar = False\<rparr>,
                   vep = None\<rparr>],
       mt_cols = []\<rparr> filters freq 0 False True False
   = Inr [\<lparr>filters = Some {||},
                   freq = Some [Some \<lparr>AC = Some 2, AN = Some 200, AF = Some (1 / 100)\<rparr>],
                   alleles = Some [Some ''A'', Some ''T''],
                   locus = Some \<lparr>contig = ''chr1'', position = 1000, in_autosome_or_par = True,
                                  in_x_nonpar = False, in_y_nonpar = False\<rparr>,
                   vep = None\<rparr>]"
  by (simp add: retained_rows_def filt_criteria_def hl_len_def index_expr_def hl_defs)


theorem rare_rows_subset_witness:
  "retained_rows
     \<lparr>mt_rows =
        [\<lparr>filters = Some {||},
          freq = Some [Some \<lparr>AC = Some 2, AN = Some 200, AF = Some (1 / 100)\<rparr>],
          alleles = Some [Some ''A'', Some ''T''],
          locus = Some \<lparr>contig = ''chr1'', position = 1000, in_autosome_or_par = True,
                         in_x_nonpar = False, in_y_nonpar = False\<rparr>,
          vep = None\<rparr>,
         \<lparr>filters = Some {||},
          freq = Some [Some \<lparr>AC = Some 100, AN = Some 200, AF = Some (1 / 2)\<rparr>],
          alleles = Some [Some ''A'', Some ''T''],
          locus = Some \<lparr>contig = ''chr1'', position = 2000, in_autosome_or_par = True,
                         in_x_nonpar = False, in_y_nonpar = False\<rparr>,
          vep = None\<rparr>],
       mt_cols = []\<rparr> filters freq 0 False True False
   = Inr [\<lparr>filters = Some {||},
          freq = Some [Some \<lparr>AC = Some 2, AN = Some 200, AF = Some (1 / 100)\<rparr>],
          alleles = Some [Some ''A'', Some ''T''],
          locus = Some \<lparr>contig = ''chr1'', position = 1000, in_autosome_or_par = True,
                         in_x_nonpar = False, in_y_nonpar = False\<rparr>,
          vep = None\<rparr>]
   \<and> (\<exists>rs. retained_rows
     \<lparr>mt_rows =
        [\<lparr>filters = Some {||},
          freq = Some [Some \<lparr>AC = Some 2, AN = Some 200, AF = Some (1 / 100)\<rparr>],
          alleles = Some [Some ''A'', Some ''T''],
          locus = Some \<lparr>contig = ''chr1'', position = 1000, in_autosome_or_par = True,
                         in_x_nonpar = False, in_y_nonpar = False\<rparr>,
          vep = None\<rparr>,
         \<lparr>filters = Some {||},
          freq = Some [Some \<lparr>AC = Some 100, AN = Some 200, AF = Some (1 / 2)\<rparr>],
          alleles = Some [Some ''A'', Some ''T''],
          locus = Some \<lparr>contig = ''chr1'', position = 2000, in_autosome_or_par = True,
                         in_x_nonpar = False, in_y_nonpar = False\<rparr>,
          vep = None\<rparr>],
       mt_cols = []\<rparr> filters freq 0 False False False = Inr rs
          \<and> set [\<lparr>filters = Some {||},
          freq = Some [Some \<lparr>AC = Some 2, AN = Some 200, AF = Some (1 / 100)\<rparr>],
          alleles = Some [Some ''A'', Some ''T''],
          locus = Some \<lparr>contig = ''chr1'', position = 1000, in_autosome_or_par = True,
                         in_x_nonpar = False, in_y_nonpar = False\<rparr>,
          vep = None\<rparr>] \<subseteq> set rs)"
proof -
  let ?mt = "\<lparr>mt_rows =
        [\<lparr>filters = Some {||},
          freq = Some [Some \<lparr>AC = Some 2, AN = Some 200, AF = Some (1 / 100)\<rparr>],
          alleles = Some [Some ''A'', Some ''T''],
          locus = Some \<lparr>contig = ''chr1'', position = 1000, in_autosome_or_par = True,
                         in_x_nonpar = False, in_y_nonpar = False\<rparr>,
          vep = None\<rparr>,
         \<lparr>filters = Some {||},
          freq = Some [Some \<lparr>AC = Some 100, AN = Some 200, AF = Some (1 / 2)\<rparr>],
          alleles = Some [Some ''A'', Some ''T''],
          locus = Some \<lparr>contig = ''chr1'', position = 2000, in_autosome_or_par = True,
                         in_x_nonpar = False, in_y_nonpar = False\<rparr>,
          vep = None\<rparr>],
       mt_cols = []\<rparr>"
  let ?r1 = "\<lparr>filters = Some {||},
          freq = Some [Some \<lparr>AC = Some 2, AN = Some 200, AF = Some (1 / 100)\<rparr>],
          alleles = Some [Some ''A'', Some ''T''],
          locus = Some \<lparr>contig = ''chr1'', position = 1000, in_autosome_or_par = True,
                         in_x_nonpar = False, in_y_nonpar = False\<rparr>,
          vep = None\<rparr>"
  have h: "retained_rows ?mt filters freq 0 False True False = Inr [?r1]"
    by (simp add: retained_rows_def filt_criteria_def hl_len_def index_expr_def hl_defs)
  from rare_rows_subset [OF h] obtain rs where
    "retained_rows ?mt filters freq 0 False False False = Inr rs" and "set [?r1] \<subseteq> set rs"
    by blast
  with h show ?thesis by blast
qed

section \<open>Properties of the category counter and of the summary counts\<close>

lemma agg_count_where_Inr:
  "agg_count_where p rs = Inr n \<Longrightarrow> n = int (length (filter (\<lambda>r. p r = Inr (Some True)) rs))"
  by (induction rs arbitrary: n) (auto split: sum.splits if_splits)

lemma agg_count_where_total:
  "(\<And>r. r \<in> set rs \<Longrightarrow> \<exists>b. p r = Inr b) \<Longrightarrow> \<exists>n. agg_count_where p rs = Inr n"
proof (induction rs)
  case Nil
  then show ?case by simp
next
  case (Cons r rs)
  have "\<exists>b. p r = Inr b"
    using Cons.prems by simp
  then obtain b where b: "p r = Inr b" ..
  have "\<exists>n. agg_count_where p rs = Inr n"
    using Cons.IH Cons.prems by simp
  then obtain n where n: "agg_count_where p rs = Inr n" ..
  from b n show ?case by simp
qed

lemma agg_count_as_count_where: "agg_count_where (\<lambda>r. lit True) rs = agg_count rs"
  by (induction rs) (simp_all add: agg_count_def lit_def)

lemma agg_count_eq: "agg_count = agg_count_where (\<lambda>r. lit True)"
  by (rule ext) (simp add: agg_count_as_count_where)

lemma summary_counts_dict_conds:
  "get_summary_counts_dict is_indel is_snp allele_expr lof_expr no_lof_flags_expr prefix_str =
     map (\<lambda>(name, p). (prefix_str @ name, agg_count_where p))
       (category_conds is_indel is_snp allele_expr lof_expr no_lof_flags_expr)"
  by (simp add: get_summary_counts_dict_def category_conds_def agg_count_eq)

lemma category_conds_names:
  "map fst (category_conds is_indel is_snp allele_expr lof_expr no_lof_flags_expr) = category_names"
  by (simp add: category_conds_def category_names_def)

lemma aggregate_conds:
  "aggregate (map (\<lambda>(name, p). (g name, agg_count_where p)) ps) rs = Inr cs \<Longrightarrow>
   cs = map (\<lambda>(name, p). (g name, count_true p rs)) ps"
proof (induction ps arbitrary: cs)
  case Nil
  then show ?case by simp
next
  case (Cons a ps)
  obtain name p where a: "a = (name, p)" by (cases a)
  from Cons.prems a obtain n ns where n: "agg_count_where p rs = Inr n"
    and ns: "aggregate (map (\<lambda>(name, p). (g name, agg_count_where p)) ps) rs = Inr ns"
    and cs: "cs = (g name, n) # ns"
    by (auto split: sum.splits)
  from Cons.IH [OF ns] agg_count_where_Inr [OF n] a cs show ?case
    by (simp add: count_true_def)
qed

lemma collect_Inr: "collect xs = Inr vs \<Longrightarrow> xs = map Inr vs"
  by (induction xs arbitrary: vs) (auto split: sum.splits)

lemma group_by_aggregate_conds:
  assumes "group_by_aggregate key (map (\<lambda>(name, p). (g name, agg_count_where p)) ps) rs = Inr gs"
  shows "gs = map (\<lambda>k. (k, map (\<lambda>(name, p). (g name, count_true p (filter (\<lambda>r. key r = k) rs))) ps))
                (remdups (map key rs))"
proof -
  let ?d = "map (\<lambda>(name, p). (g name, agg_count_where p)) ps"
  let ?f = "\<lambda>k. case aggregate ?d (filter (\<lambda>r. key r = k) rs) of
                    Inl e \<Rightarrow> Inl e
                  | Inr ns \<Rightarrow> Inr (k, ns)"
  from assms have m: "map ?f (remdups (map key rs)) = map Inr gs"
    unfolding group_by_aggregate_def by (rule collect_Inr)
  have len: "length gs = length (remdups (map key rs))"
    using arg_cong [OF m, of length] by simp
  show ?thesis
  proof (rule nth_equalityI)
    show "length gs = length (map (\<lambda>k. (k, map (\<lambda>(name, p). (g name, count_true p (filter (\<lambda>r. key r = k) rs))) ps))
                (remdups (map key rs)))"
      using len by simp
  next
    fix i assume i: "i < length gs"
    let ?k = "remdups (map key rs) ! i"
    from m have "map ?f (remdups (map key rs)) ! i = map Inr gs ! i"
      by (rule arg_cong)
    with i len have "?f ?k = Inr (gs ! i)"
      by simp
    then obtain ns where ns: "aggregate ?d (filter (\<lambda>r. key r = ?k) rs) = Inr ns"
      and gi: "gs ! i = (?k, ns)"
      by (auto split: sum.splits)
    from aggregate_conds [OF ns] gi i len
    show "gs ! i = map (\<lambda>k. (k, map (\<lambda>(name, p). (g name, count_true p (filter (\<lambda>r. key r = k) rs))) ps))
                (remdups (map key rs)) ! i"
      by simp
  qed
qed

lemma sum_count_by_key:
  assumes "finite K" and "key ` set rs \<subseteq> K"
  shows "(\<Sum>k\<in>K. length (filter (\<lambda>r. key r = k \<and> P r) rs)) = length (filter P rs)"
  using assms(2)
proof (induction rs)
  case Nil
  then show ?case by simp
next
  case (Cons r rs)
  then have IH: "(\<Sum>k\<in>K. length (filter (\<lambda>r. key r = k \<and> P r) rs)) = length (filter P rs)"
    and r: "key r \<in> K" by auto
  have "(\<Sum>k\<in>K. length (filter (\<lambda>x. key x = k \<and> P x) (r # rs)))
        = (\<Sum>k\<in>K. (if k = key r then (if P r then 1 else 0) else 0)
                   + length (filter (\<lambda>x. key x = k \<and> P x) rs))"
    by (rule sum.cong) auto
  also have "\<dots> = (\<Sum>k\<in>K. if k = key r then (if P r then 1 else 0) else 0)
                  + (\<Sum>k\<in>K. length (filter (\<lambda>x. key x = k \<and> P x) rs))"
    by (rule sum.distrib)
  also have "\<dots> = (if P r then 1 else 0) + length (filter P rs)"
    using assms(1) r IH by (simp add: sum.delta)
  finally show ?case by simp
qed

lemma count_true_by_key:
  "sum_list (map (\<lambda>k. count_true p (filter (\<lambda>r. key r = k) rs)) (remdups (map key rs)))
     = count_true p rs"
proof -
  let ?P = "\<lambda>r. p r = Inr (Some True)"
  have "sum_list (map (\<lambda>k. length (filter (\<lambda>r. key r = k \<and> ?P r) rs)) (remdups (map key rs)))
          = (\<Sum>k\<in>key ` set rs. length (filter (\<lambda>r. key r = k \<and> ?P r) rs))"
    using sum_list_distinct_conv_sum_set [of "remdups (map key rs)"] by simp
  also have "\<dots> = length (filter ?P rs)"
    by (rule sum_count_by_key) simp_all
  finally have n: "sum_list (map (\<lambda>k. length (filter (\<lambda>r. key r = k \<and> ?P r) rs))
                     (remdups (map key rs))) = length (filter ?P rs)" .
  have c: "count_true p (filter (\<lambda>r. key r = k) rs)
             = int (length (filter (\<lambda>r. key r = k \<and> ?P r) rs))" for k
    by (simp add: count_true_def)
  have "sum_list (map (\<lambda>k. int (length (filter (\<lambda>r. key r = k \<and> ?P r) rs)))
                     (remdups (map key rs)))
          = int (sum_list (map (\<lambda>k. length (filter (\<lambda>r. key r = k \<and> ?P r) rs))
                     (remdups (map key rs))))"
    using sum_list_of_nat [of "map (\<lambda>k. length (filter (\<lambda>r. key r = k \<and> ?P r) rs))
                     (remdups (map key rs))", where 'a = int]
    by (simp add: comp_def)
  with n show ?thesis by (simp only: c) (simp add: count_true_def)
qed


lemma count_true_nonneg: "0 \<le> count_true p rs"
  by (simp add: count_true_def)

lemma count_true_all: "count_true (\<lambda>r. lit True) rs = int (length rs)"
  by (simp add: count_true_def lit_def)

lemma count_true_partition:
  "(\<And>r. r \<in> set rs \<Longrightarrow> (p r = Inr (Some True)) \<noteq> (q r = Inr (Some True))) \<Longrightarrow>
   count_true p rs + count_true q rs = int (length rs)"
proof (induction rs)
  case Nil
  then show ?case by (simp add: count_true_def)
next
  case (Cons r rs)
  have "(p r = Inr (Some True)) \<noteq> (q r = Inr (Some True))"
    using Cons.prems by simp
  moreover have "count_true p rs + count_true q rs = int (length rs)"
    using Cons.IH Cons.prems by simp
  ultimately show ?case
    by (auto simp add: count_true_def)
qed

lemma map_of_conds:
  "distinct (map fst ps) \<Longrightarrow> (c, p) \<in> set ps \<Longrightarrow> inj g \<Longrightarrow>
   map_of (map (\<lambda>(name, p). (g name, f p)) ps) (g c) = Some (f p)"
proof (induction ps)
  case Nil
  then show ?case by simp
next
  case (Cons a ps)
  obtain n q where a: "a = (n, q)" by (cases a)
  show ?case
  proof (cases "n = c")
    case True
    with Cons.prems a have "q = p"
      by (auto simp add: rev_image_eqI)
    with True a show ?thesis by simp
  next
    case False
    with Cons.prems a have "g n \<noteq> g c" and "(c, p) \<in> set ps" and "distinct (map fst ps)"
      by (auto dest: injD)
    with Cons.IH Cons.prems(3) a show ?thesis by simp
  qed
qed

text \<open>
  The category counter returns its counts when no row fails: when the allele array
  of every row is missing or has two elements at least, and the two other
  expressions evaluate without error (as the fields of a row do).
\<close>

lemma binop_Inr: "\<exists>b. binop f (Inr x) (Inr y) = Inr b"
  by (cases x; cases y) (simp_all add: binop_def)

lemma hl_and_Inr: "\<exists>b. hl_and (Inr x) (Inr y) = Inr b"
  by (cases x; cases y) (auto simp add: hl_and_def split: bool.split)

lemma aggregate_summary_counts_total:
  assumes "\<And>r. r \<in> set rs \<Longrightarrow>
             (\<exists>v. index_expr (allele_expr r) 0 = Inr v) \<and> (\<exists>v. index_expr (allele_expr r) 1 = Inr v)
             \<and> (\<exists>v. lof_expr r = Inr v) \<and> (\<exists>v. no_lof_flags_expr r = Inr v)"
  shows "\<exists>counts. aggregate (get_summary_counts_dict is_indel is_snp allele_expr lof_expr
                        no_lof_flags_expr prefix_str) rs = Inr counts"
proof -
  have ok: "\<exists>n. agg_count_where p rs = Inr n" if "\<And>r. r \<in> set rs \<Longrightarrow> \<exists>b. p r = Inr b" for p
    using that by (rule agg_count_where_total)
  have 1: "\<exists>n. agg_count_where
      (\<lambda>r. binop is_indel (index_expr (allele_expr r) 0) (index_expr (allele_expr r) 1)) rs = Inr n"
    by (rule ok) (use assms binop_Inr in fastforce)
  have 2: "\<exists>n. agg_count_where
      (\<lambda>r. binop is_snp (index_expr (allele_expr r) 0) (index_expr (allele_expr r) 1)) rs = Inr n"
    by (rule ok) (use assms binop_Inr in fastforce)
  have 3: "\<exists>n. agg_count_where (\<lambda>r. is_defined (lof_expr r)) rs = Inr n"
    by (rule ok) (use assms in \<open>fastforce simp add: is_defined_def\<close>)
  have 4: "\<exists>n. agg_count_where (\<lambda>r. hl_eq (lof_expr r) (lit l)) rs = Inr n" for l
    by (rule ok) (use assms binop_Inr in \<open>fastforce simp add: hl_eq_def lit_def\<close>)
  have 5: "\<exists>n. agg_count_where
      (\<lambda>r. hl_and (hl_eq (lof_expr r) (lit ''HC'')) (no_lof_flags_expr r)) rs = Inr n"
  proof (rule ok)
    fix r assume "r \<in> set rs"
    with assms obtain v w where "lof_expr r = Inr v" "no_lof_flags_expr r = Inr w" by blast
    moreover obtain b where "hl_eq (Inr v) (lit ''HC'') = Inr b"
      using binop_Inr [of "\<lambda>u v. u = v" v "Some ''HC''"] by (auto simp add: hl_eq_def lit_def)
    ultimately show "\<exists>b. hl_and (hl_eq (lof_expr r) (lit ''HC'')) (no_lof_flags_expr r) = Inr b"
      using hl_and_Inr by fastforce
  qed
  from 1 2 3 4 [of "''HC''"] 4 [of "''OS''"] 4 [of "''LC''"] 5
  obtain n1 n2 n3 n4 n5 n6 n7 where
    "agg_count_where
      (\<lambda>r. binop is_indel (index_expr (allele_expr r) 0) (index_expr (allele_expr r) 1)) rs = Inr n1"
    "agg_count_where
      (\<lambda>r. binop is_snp (index_expr (allele_expr r) 0) (index_expr (allele_expr r) 1)) rs = Inr n2"
    "agg_count_where (\<lambda>r. is_defined (lof_expr r)) rs = Inr n3"
    "agg_count_where (\<lambda>r. hl_eq (lof_expr r) (lit ''HC'')) rs = Inr n4"
    "agg_count_where (\<lambda>r. hl_eq (lof_expr r) (lit ''OS'')) rs = Inr n5"
    "agg_count_where (\<lambda>r. hl_eq (lof_expr r) (lit ''LC'')) rs = Inr n6"
    "agg_count_where
      (\<lambda>r. hl_and (hl_eq (lof_expr r) (lit ''HC'')) (no_lof_flags_expr r)) rs = Inr n7"
    by blast
  then show ?thesis
    by (simp add: get_summary_counts_dict_def agg_count_def)
qed

text \<open>
  Claim C6. Whenever the category counter returns its counts, they are the eight
  counts under the eight names (with the prefix), and none is negative. When the two
  alleles of every record are defined and exactly one of \<open>is_indel\<close> and \<open>is_snp\<close>
  holds of them, \<open>num_variants\<close> is the number of records and equals \<open>indels + snps\<close>.
\<close>

theorem summary_counts_nonneg_and_partition:
  assumes "aggregate (get_summary_counts_dict is_indel is_snp allele_expr lof_expr
                        no_lof_flags_expr prefix_str) rs = Inr counts"
  shows "map fst counts = map (\<lambda>c. prefix_str @ c) category_names
         \<and> length counts = 8
         \<and> (\<forall>x\<in>set counts. 0 \<le> snd x)
         \<and> ((\<forall>r\<in>set rs. \<exists>a0 a1. index_expr (allele_expr r) 0 = lit a0
                                  \<and> index_expr (allele_expr r) 1 = lit a1
                                  \<and> is_indel a0 a1 \<noteq> is_snp a0 a1)
            \<longrightarrow> (\<exists>n i s. map_of counts (prefix_str @ ''num_variants'') = Some n
                        \<and> map_of counts (prefix_str @ ''indels'') = Some i
                        \<and> map_of counts (prefix_str @ ''snps'') = Some s
                        \<and> n = int (length rs) \<and> n = i + s))"
proof -
  let ?conds = "category_conds is_indel is_snp allele_expr lof_expr no_lof_flags_expr"
  let ?indel = "\<lambda>r. binop is_indel (index_expr (allele_expr r) 0) (index_expr (allele_expr r) 1)"
  let ?snp = "\<lambda>r. binop is_snp (index_expr (allele_expr r) 0) (index_expr (allele_expr r) 1)"
  have counts: "counts = map (\<lambda>(name, p). (prefix_str @ name, count_true p rs)) ?conds"
    using assms unfolding summary_counts_dict_conds by (rule aggregate_conds)
  have names: "map fst counts = map (\<lambda>c. prefix_str @ c) category_names"
    unfolding counts category_conds_names [symmetric, of is_indel is_snp allele_expr lof_expr
        no_lof_flags_expr]
    by (simp add: case_prod_beta comp_def)
  have len: "length counts = 8"
    by (simp add: counts category_conds_def)
  have nonneg: "\<forall>x\<in>set counts. 0 \<le> snd x"
    by (auto simp add: counts count_true_nonneg)
  have n: "map_of counts (prefix_str @ ''num_variants'') = Some (int (length rs))"
    by (simp add: counts category_conds_def count_true_all)
  have i: "map_of counts (prefix_str @ ''indels'') = Some (count_true ?indel rs)"
    by (simp add: counts category_conds_def)
  have s: "map_of counts (prefix_str @ ''snps'') = Some (count_true ?snp rs)"
    by (simp add: counts category_conds_def)
  have part: "int (length rs) = count_true ?indel rs + count_true ?snp rs"
    if h: "\<forall>r\<in>set rs. \<exists>a0 a1. index_expr (allele_expr r) 0 = lit a0
                                  \<and> index_expr (allele_expr r) 1 = lit a1
                                  \<and> is_indel a0 a1 \<noteq> is_snp a0 a1"
  proof -
    have "(?indel r = Inr (Some True)) \<noteq> (?snp r = Inr (Some True))" if "r \<in> set rs" for r
    proof -
      from h that obtain a0 a1 where "index_expr (allele_expr r) 0 = lit a0"
        and "index_expr (allele_expr r) 1 = lit a1" and "is_indel a0 a1 \<noteq> is_snp a0 a1"
        by blast
      then show ?thesis by (simp add: binop_def lit_def)
    qed
    then show ?thesis by (simp add: count_true_partition)
  qed
  show ?thesis
    using names len nonneg n i s part by blast
qed

theorem summary_counts_nonneg_and_partition_witness:
  "aggregate
     (get_summary_counts_dict (\<lambda>a b. length a \<noteq> length b) (\<lambda>a b. length a = length b)
        (\<lambda>r. lit (fst r)) (\<lambda>r. Inr (snd r)) (\<lambda>r. lit True) ''total_'')
     [([Some ''A'', Some ''T''], Some ''HC''), ([Some ''A'', Some ''AT''], None)]
   = Inr [(''total_num_variants'', 2), (''total_indels'', 1), (''total_snps'', 1),
          (''total_LOF'', 1), (''total_pass_loftee'', 1), (''total_pass_loftee_no_flag'', 1),
          (''total_loftee_os'', 0), (''total_fail_loftee'', 0)]
   \<and> map_of [(''total_num_variants'', 2 :: int), (''total_indels'', 1), (''total_snps'', 1),
          (''total_LOF'', 1), (''total_pass_loftee'', 1), (''total_pass_loftee_no_flag'', 1),
          (''total_loftee_os'', 0), (''total_fail_loftee'', 0)] ''total_num_variants''
       = Some (1 + 1)"
proof -
  let ?d = "get_summary_counts_dict (\<lambda>a b. length a \<noteq> length b) (\<lambda>a b. length a = length b)
        (\<lambda>r. lit (fst r)) (\<lambda>r. Inr (snd r)) (\<lambda>r. lit True) ''total_''"
  let ?rs = "[([Some ''A'', Some ''T''], Some ''HC''), ([Some ''A'', Some ''AT''], None)]
               :: (string option list \<times> string option) list"
  let ?cs = "[(''total_num_variants'', 2 :: int), (''total_indels'', 1), (''total_snps'', 1),
          (''total_LOF'', 1), (''total_pass_loftee'', 1), (''total_pass_loftee_no_flag'', 1),
          (''total_loftee_os'', 0), (''total_fail_loftee'', 0)]"
  have h: "aggregate ?d ?rs = Inr ?cs"
    by (simp add: get_summary_counts_dict_def agg_count_def index_expr_def hl_defs)
  have c: "\<forall>r\<in>set ?rs. \<exists>a0 a1. index_expr ((\<lambda>r. lit (fst r)) r) 0 = lit a0
                                  \<and> index_expr ((\<lambda>r. lit (fst r)) r) 1 = lit a1
                                  \<and> (length a0 \<noteq> length a1) \<noteq> (length a0 = length a1)"
    by (simp add: index_expr_def lit_def)
  from summary_counts_nonneg_and_partition [OF h] c
  have "\<exists>n i s. map_of ?cs (''total_'' @ ''num_variants'') = Some n
                        \<and> map_of ?cs (''total_'' @ ''indels'') = Some i
                        \<and> map_of ?cs (''total_'' @ ''snps'') = Some s
                        \<and> n = int (length ?rs) \<and> n = i + s"
    by blast
  then have "map_of ?cs ''total_num_variants'' = Some (1 + 1)"
    by simp
  with h show ?thesis by blast
qed

lemma category_conds_distinct:
  "distinct (map fst (category_conds is_indel is_snp allele_expr lof_expr no_lof_flags_expr))"
  by (simp add: category_conds_names category_names_def)

text \<open>
  Claim C4. Whenever the pipeline returns its table, for each of the eight
  categories every row of the table holds a count of the category, and the total
  recorded in the global annotation under the name with the prefix \<open>total_\<close> is the
  sum of these counts over the rows of the table. Both are counted on the same rows:
  those left after the filters and the collaborators, with their frequency bin.
\<close>

theorem total_counts_sum_of_bins:
  assumes "get_summary_counts is_indel is_snp filter_low_conf_regions
             filter_vep_to_canonical_transcripts get_most_severe_consequence_for_summary
             (ht :: 'z ht_row_scheme list) freq_field filter_field filter_decoy = Inr out"
    and "c \<in> set category_names"
  shows "\<exists>ns. map (\<lambda>b. map_of (snd b) c) (bin_rows out) = map Some ns
              \<and> map_of (summary_counts out) (''total_'' @ c) = Some (sum_list ns)"
proof -
  let ?conds = "category_conds is_indel is_snp (field_ref alleles) (field_ref ht_row.lof)
                  (field_ref no_lof_flags) :: (string \<times> ('z ht_row_scheme \<Rightarrow> bool expr)) list"
  from assms(1) obtain ht5 :: "'z ht_row_scheme list" and totals groups where
    t: "aggregate (get_summary_counts_dict is_indel is_snp (field_ref alleles)
          (field_ref ht_row.lof) (field_ref no_lof_flags) ''total_'') ht5 = Inr totals"
    and g: "group_by_aggregate freq_bin (get_summary_counts_dict is_indel is_snp
          (field_ref alleles) (field_ref ht_row.lof) (field_ref no_lof_flags) []) ht5 = Inr groups"
    and out: "out = \<lparr>summary_counts = totals, bin_rows = groups\<rparr>"
    unfolding get_summary_counts_def by (auto split: sum.splits)
  have totals: "totals = map (\<lambda>(name, p). (''total_'' @ name, count_true p ht5)) ?conds"
    using t unfolding summary_counts_dict_conds by (rule aggregate_conds)
  have groups: "groups =
      map (\<lambda>k. (k, map (\<lambda>(name, p). ([] @ name, count_true p (filter (\<lambda>r. freq_bin r = k) ht5)))
                     ?conds))
        (remdups (map freq_bin ht5))"
    using g unfolding summary_counts_dict_conds by (rule group_by_aggregate_conds)
  have "c \<in> set (map fst ?conds)"
    using assms(2) by (simp only: category_conds_names)
  then obtain p where p: "(c, p) \<in> set ?conds"
    by auto
  have tot: "map_of totals (''total_'' @ c) = Some (count_true p ht5)"
    unfolding totals
    by (rule map_of_conds [OF category_conds_distinct p]) (simp add: inj_on_def)
  have grp: "map_of (map (\<lambda>(name, p). ([] @ name, count_true p rs)) ?conds) ([] @ c)
               = Some (count_true p rs)" for rs
    by (rule map_of_conds [OF category_conds_distinct p]) (simp add: inj_on_def)
  let ?ns = "map (\<lambda>k. count_true p (filter (\<lambda>r. freq_bin r = k) ht5)) (remdups (map freq_bin ht5))"
  have m: "map (\<lambda>b. map_of (snd b) c) (bin_rows out) = map Some ?ns"
    unfolding out groups using grp by (simp add: comp_def)
  have s: "sum_list ?ns = count_true p ht5"
    by (rule count_true_by_key)
  have "map_of (summary_counts out) (''total_'' @ c) = Some (sum_list ?ns)"
    unfolding s using tot by (simp add: out)
  with m show ?thesis
    by (intro exI [of _ ?ns] conjI)
qed


theorem total_counts_sum_of_bins_witness:
  "get_summary_counts (\<lambda>a b. length a \<noteq> length b) (\<lambda>a b. length a = length b)
      (\<lambda>d t. Inr t) Inr Inr
      [\<lparr>filters = Some {||},
          freq = Some [Some \<lparr>AC = Some 1, AN = Some 100, AF = Some (1 / 100)\<rparr>],
          alleles = Some [Some ''A'', Some ''AT''], ht_row.lof = None, no_lof_flags = None,
          freq_bin = None\<rparr>,
       \<lparr>filters = Some {||},
          freq = Some [Some \<lparr>AC = Some 50, AN = Some 100, AF = Some (1 / 2)\<rparr>],
          alleles = Some [Some ''A'', Some ''T''], ht_row.lof = Some ''HC'', no_lof_flags = Some True,
          freq_bin = None\<rparr>,
       \<lparr>filters = Some {|''AC0''|},
          freq = Some [Some \<lparr>AC = Some 1, AN = Some 100, AF = Some (1 / 100)\<rparr>],
          alleles = Some [Some ''A'', Some ''T''], ht_row.lof = None, no_lof_flags = None,
          freq_bin = None\<rparr>]
      freq filters False
   = Inr \<lparr>summary_counts =
          [(''total_num_variants'', 2), (''total_indels'', 1), (''total_snps'', 1),
           (''total_LOF'', 1), (''total_pass_loftee'', 1), (''total_pass_loftee_no_flag'', 1),
           (''total_loftee_os'', 0), (''total_fail_loftee'', 0)],
         bin_rows =
          [(Some ''Singleton'',
            [(''num_variants'', 1), (''indels'', 1), (''snps'', 0), (''LOF'', 0),
             (''pass_loftee'', 0), (''pass_loftee_no_flag'', 0), (''loftee_os'', 0),
             (''fail_loftee'', 0)]),
           (Some ''10% - 95%'',
            [(''num_variants'', 1), (''indels'', 0), (''snps'', 1), (''LOF'', 1),
             (''pass_loftee'', 1), (''pass_loftee_no_flag'', 1), (''loftee_os'', 0),
             (''fail_loftee'', 0)])]\<rparr>
   \<and> ''indels'' \<in> set category_names
   \<and> (\<exists>ns. map (\<lambda>b. map_of (snd b) ''indels'') (bin_rows \<lparr>summary_counts =
          [(''total_num_variants'', 2), (''total_indels'', 1), (''total_snps'', 1),
           (''total_LOF'', 1), (''total_pass_loftee'', 1), (''total_pass_loftee_no_flag'', 1),
           (''total_loftee_os'', 0), (''total_fail_loftee'', 0)],
         bin_rows =
          [(Some ''Singleton'',
            [(''num_variants'', 1), (''indels'', 1), (''snps'', 0), (''LOF'', 0),
             (''pass_loftee'', 0), (''pass_loftee_no_flag'', 0), (''loftee_os'', 0),
             (''fail_loftee'', 0)]),
           (Some ''10% - 95%'',
            [(''num_variants'', 1), (''indels'', 0), (''snps'', 1), (''LOF'', 1),
             (''pass_loftee'', 1), (''pass_loftee_no_flag'', 1), (''loftee_os'', 0),
             (''fail_loftee'', 0)])]\<rparr>) = map Some ns
           \<and> map_of (summary_counts \<lparr>summary_counts =
          [(''total_num_variants'', 2), (''total_indels'', 1), (''total_snps'', 1),
           (''total_LOF'', 1), (''total_pass_loftee'', 1), (''total_pass_loftee_no_flag'', 1),
           (''total_loftee_os'', 0), (''total_fail_loftee'', 0)],
         bin_rows =
          [(Some ''Singleton'',
            [(''num_variants'', 1), (''indels'', 1), (''snps'', 0), (''LOF'', 0),
             (''pass_loftee'', 0), (''pass_loftee_no_flag'', 0), (''loftee_os'', 0),
             (''fail_loftee'', 0)]),
           (Some ''10% - 95%'',
            [(''num_variants'', 1), (''indels'', 0), (''snps'', 1), (''LOF'', 1),
             (''pass_loftee'', 1), (''pass_loftee_no_flag'', 1), (''loftee_os'', 0),
             (''fail_loftee'', 0)])]\<rparr>) (''total_'' @ ''indels'') = Some (sum_list ns))"
proof -
  have h: "get_summary_counts (\<lambda>a b. length a \<noteq> length b) (\<lambda>a b. length a = length b)
      (\<lambda>d t. Inr t) Inr Inr
      [\<lparr>filters = Some {||},
          freq = Some [Some \<lparr>AC = Some 1, AN = Some 100, AF = Some (1 / 100)\<rparr>],
          alleles = Some [Some ''A'', Some ''AT''], ht_row.lof = None, no_lof_flags = None,
          freq_bin = None\<rparr>,
       \<lparr>filters = Some {||},
          freq = Some [Some \<lparr>AC = Some 50, AN = Some 100, AF = Some (1 / 2)\<rparr>],
          alleles = Some [Some ''A'', Some ''T''], ht_row.lof = Some ''HC'', no_lof_flags = Some True,
          freq_bin = None\<rparr>,
       \<lparr>filters = Some {|''AC0''|},
          freq = Some [Some \<lparr>AC = Some 1, AN = Some 100, AF = Some (1 / 100)\<rparr>],
          alleles = Some [Some ''A'', Some ''T''], ht_row.lof = None, no_lof_flags = None,
          freq_bin = None\<rparr>]
      freq filters False
   = Inr \<lparr>summary_counts =
          [(''total_num_variants'', 2), (''total_indels'', 1), (''total_snps'', 1),
           (''total_LOF'', 1), (''total_pass_loftee'', 1), (''total_pass_loftee_no_flag'', 1),
           (''total_loftee_os'', 0), (''total_fail_loftee'', 0)],
         bin_rows =
          [(Some ''Singleton'',
            [(''num_variants'', 1), (''indels'', 1), (''snps'', 0), (''LOF'', 0),
             (''pass_loftee'', 0), (''pass_loftee_no_flag'', 0), (''loftee_os'', 0),
             (''fail_loftee'', 0)]),
           (Some ''10% - 95%'',
            [(''num_variants'', 1), (''indels'', 0), (''snps'', 1), (''LOF'', 1),
             (''pass_loftee'', 1), (''pass_loftee_no_flag'', 1), (''loftee_os'', 0),
             (''fail_loftee'', 0)])]\<rparr>"
    by (simp add: get_summary_counts_def get_summary_counts_dict_def group_by_aggregate_def
        agg_count_def freq_bin_expr_def hl_len_def index_expr_def hl_defs)
  have c: "''indels'' \<in> set category_names"
    by (simp add: category_names_def)
  from total_counts_sum_of_bins [OF h c] h c show ?thesis
    by (intro conjI)
qed

end
